theory Spec2Isabelle
  imports Main
begin

section \<open>JavaScript values shared by the two commands\<close>

text \<open>
  A JavaScript \<^verbatim>\<open>Error\<close> as the commands read it: its \<^verbatim>\<open>message\<close>, and the
  status of \<^verbatim>\<open>error.response\<close> when the error carries a response (an HTTP error of
  the client library); \<open>None\<close> when \<^verbatim>\<open>error.response\<close> is undefined.
\<close>

datatype error = Error (message: string) (response_status: "int option")

text \<open>How a call ends: it returns a value, or it throws.\<close>

datatype 'a completion = Returned 'a | Threw error

text \<open>
  An optional string is falsy in JavaScript when it is undefined or empty
  (\<^verbatim>\<open>!this.source\<close>).
\<close>

definition falsy :: "string option \<Rightarrow> bool" where
  "falsy s = (case s of None \<Rightarrow> True | Some v \<Rightarrow> v = [])"

section \<open>The dependencies upload command (commands/dependencies/upload.ts)\<close>

definition errorCodesNoRetry :: "int list" where
  "errorCodesNoRetry = [400, 403, 413]"

definition SUPPORTED_SOURCES :: "string list" where
  "SUPPORTED_SOURCES = [''snyk'']"

definition INVALID_INPUT_EXIT_CODE :: int where
  "INVALID_INPUT_EXIT_CODE = 1"

definition MISSING_FILE_EXIT_CODE :: int where
  "MISSING_FILE_EXIT_CODE = 2"

definition UPLOAD_ERROR_EXIT_CODE :: int where
  "UPLOAD_ERROR_EXIT_CODE = 3"

text \<open>
  The fields of \<^verbatim>\<open>UploadCommand\<close>; \<open>apiKey\<close> and \<open>appKey\<close> are those of its
  \<^verbatim>\<open>config\<close> (the environment variables DATADOG_API_KEY and DATADOG_APP_KEY).
\<close>

record UploadCommand =
  apiKey :: "string option"
  appKey :: "string option"
  dependenciesFilePath :: string
  dryRun :: bool
  releaseVersion :: "string option"
  service :: "string option"
  source :: "string option"

record Payload =
  payload_dependenciesFilePath :: string
  payload_service :: string
  payload_source :: string
  payload_version :: "string option"

text \<open>
  What the command is run against: whether the dependencies file exists
  (\<^verbatim>\<open>fs.existsSync\<close>), how the \<open>n\<close>-th call of \<^verbatim>\<open>api.uploadDependencies\<close> ends
  (\<open>None\<close>: it resolves; \<open>Some e\<close>: it rejects with \<open>e\<close>; calls are counted from 1),
  and the error of \<^verbatim>\<open>metricsLogger.flush\<close>, if it fails.
\<close>

record UploadWorld =
  fileExists :: bool
  uploadResponse :: "nat \<Rightarrow> error option"
  flushError :: "string option"

text \<open>
  The renderer module is not part of the sources: a rendered message is the name of
  its render function with the arguments of the call. The message written for a
  caught error is \<open>errorMessage\<close>, the warning of a failed flush \<open>flushWarning\<close>.
\<close>

datatype rendered =
    renderCannotFindFile string
  | renderCommandInfo string string string "string option" bool
  | renderDryRunUpload
  | renderFailedUpload string
  | renderFailedUploadBecauseOf403 string
  | renderMissingEnvironmentVariable string
  | renderMissingParameter string "string list option"
  | renderMissingReleaseVersionParameter
  | renderRetriedUpload string nat
  | renderSuccessfulCommand
  | renderUnsupportedParameterValue string string "string list"
  | renderUpload
  | errorMessage string
  | flushWarning string

text \<open>The effects of the command, in the order they happen.\<close>

datatype upload_event =
    stdout_write rendered
  | stderr_write rendered
  | api_uploadDependencies Payload
  | metric_increment string
  | metric_gauge string
  | metrics_flush

subsection \<open>The retry loop\<close>

text \<open>
  One run of the function given to \<^verbatim>\<open>retry\<close>: it resolves, it calls
  \<^verbatim>\<open>bail(error)\<close> and returns, or it throws the error again.
\<close>

datatype attempt = Resolved | Bailed error | Rethrown error

definition uploadAttempt ::
  "UploadCommand \<Rightarrow> UploadWorld \<Rightarrow> Payload \<Rightarrow> nat \<Rightarrow> attempt \<times> upload_event list" where
  "uploadAttempt cmd world payload n =
     (if dryRun cmd then (Resolved, [stdout_write renderDryRunUpload])
      else
        (case uploadResponse world n of
           None \<Rightarrow>
             (Resolved,
              [stdout_write renderUpload, api_uploadDependencies payload,
               metric_increment ''success''])
         | Some err \<Rightarrow>
             (case response_status err of
                Some status \<Rightarrow>
                  if status \<notin> set errorCodesNoRetry
                  then (Rethrown err, [stdout_write renderUpload, api_uploadDependencies payload])
                  else (Bailed err, [stdout_write renderUpload, api_uploadDependencies payload])
              | None \<Rightarrow>
                  (Bailed err, [stdout_write renderUpload, api_uploadDependencies payload]))))"

text \<open>
  \<^verbatim>\<open>retry(fn, {onRetry, retries})\<close> of the async-retry package, which the command
  imports: the function is run; when it throws and retries are left, \<^verbatim>\<open>onRetry\<close> is
  called with the error and the number of the failed attempt, and the function is
  run again; when it throws and no retry is left, or when it bails, the call
  rejects with the error. So \<open>retries\<close> counts the runs after the first one. The
  waiting time between two runs is not modelled. (When the retries are used up the
  package rejects with the error whose message was thrown most often; the model
  takes the last one, and no property below depends on which.)
\<close>

fun retry_from ::
  "(nat \<Rightarrow> attempt \<times> 'e list) \<Rightarrow> (error \<Rightarrow> nat \<Rightarrow> 'e list) \<Rightarrow> nat \<Rightarrow> nat
   \<Rightarrow> unit completion \<times> 'e list" where
  "retry_from fn onRetry n 0 =
     (case fn n of
        (Resolved, ev) \<Rightarrow> (Returned (), ev)
      | (Bailed err, ev) \<Rightarrow> (Threw err, ev)
      | (Rethrown err, ev) \<Rightarrow> (Threw err, ev))"
| "retry_from fn onRetry n (Suc left) =
     (case fn n of
        (Resolved, ev) \<Rightarrow> (Returned (), ev)
      | (Bailed err, ev) \<Rightarrow> (Threw err, ev)
      | (Rethrown err, ev) \<Rightarrow>
          (case retry_from fn onRetry (Suc n) left of
             (r, ev') \<Rightarrow> (r, ev @ onRetry err n @ ev')))"

definition retry ::
  "(nat \<Rightarrow> attempt \<times> 'e list) \<Rightarrow> (error \<Rightarrow> nat \<Rightarrow> 'e list) \<Rightarrow> nat
   \<Rightarrow> unit completion \<times> 'e list" where
  "retry fn onRetry retries = retry_from fn onRetry 1 retries"

definition onRetry_upload :: "error \<Rightarrow> nat \<Rightarrow> upload_event list" where
  "onRetry_upload err n =
     [metric_increment ''retries'', stdout_write (renderRetriedUpload (message err) n)]"

definition uploadDependencies ::
  "UploadCommand \<Rightarrow> UploadWorld \<Rightarrow> Payload \<Rightarrow> unit completion \<times> upload_event list" where
  "uploadDependencies cmd world payload =
     (case retry (uploadAttempt cmd world payload) onRetry_upload 5 of
        (Returned u, ev) \<Rightarrow> (Returned (), ev)
      | (Threw err, ev) \<Rightarrow>
          (Threw err,
           ev @
           [stdout_write
              (if response_status err = Some 403
               then renderFailedUploadBecauseOf403 (message err)
               else renderFailedUpload (message err)),
            metric_increment ''failed'']))"

subsection \<open>The command\<close>

definition flush_events :: "UploadWorld \<Rightarrow> upload_event list" where
  "flush_events world =
     (case flushError world of
        None \<Rightarrow> [metrics_flush]
      | Some err \<Rightarrow> [metrics_flush, stdout_write (flushWarning err)])"

text \<open>
  \<^verbatim>\<open>UploadCommand.execute\<close>. The result is the status it returns: \<open>Some code\<close>, or
  \<open>None\<close> when it ends without a return statement, as it does after a successful
  upload. The measured duration is not modelled, and the path of the file is taken
  as given (\<^verbatim>\<open>path.resolve\<close> only changes the path that is printed).
\<close>

definition UploadCommand_execute ::
  "UploadCommand \<Rightarrow> UploadWorld \<Rightarrow> int option \<times> upload_event list" where
  "UploadCommand_execute cmd world =
     (case source cmd of
        None \<Rightarrow>
          (Some INVALID_INPUT_EXIT_CODE,
           [stderr_write (renderMissingParameter ''--source'' (Some SUPPORTED_SOURCES))])
      | Some src \<Rightarrow>
          if src = [] then
            (Some INVALID_INPUT_EXIT_CODE,
             [stderr_write (renderMissingParameter ''--source'' (Some SUPPORTED_SOURCES))])
          else if src \<notin> set SUPPORTED_SOURCES then
            (Some INVALID_INPUT_EXIT_CODE,
             [stderr_write (renderUnsupportedParameterValue ''--source'' src SUPPORTED_SOURCES)])
          else
            (case service cmd of
               None \<Rightarrow>
                 (Some INVALID_INPUT_EXIT_CODE,
                  [stderr_write (renderMissingParameter ''--service'' None)])
             | Some svc \<Rightarrow>
                 if svc = [] then
                   (Some INVALID_INPUT_EXIT_CODE,
                    [stderr_write (renderMissingParameter ''--service'' None)])
                 else if falsy (appKey cmd) then
                   (Some INVALID_INPUT_EXIT_CODE,
                    [stderr_write (renderMissingEnvironmentVariable ''DATADOG_APP_KEY'')])
                 else if falsy (apiKey cmd) then
                   (Some INVALID_INPUT_EXIT_CODE,
                    [stderr_write (renderMissingEnvironmentVariable ''DATADOG_API_KEY'')])
                 else
                   (let warning =
                          (if falsy (releaseVersion cmd)
                           then [stdout_write renderMissingReleaseVersionParameter] else [])
                    in
                      if \<not> fileExists world then
                        (Some MISSING_FILE_EXIT_CODE,
                         warning @
                         [stderr_write (renderCannotFindFile (dependenciesFilePath cmd))])
                      else
                        (let info =
                               [stdout_write
                                  (renderCommandInfo (dependenciesFilePath cmd) src svc
                                     (releaseVersion cmd) (dryRun cmd))];
                             payload =
                               \<lparr>payload_dependenciesFilePath = dependenciesFilePath cmd,
                                payload_service = svc,
                                payload_source = src,
                                payload_version = releaseVersion cmd\<rparr>
                         in
                           (case uploadDependencies cmd world payload of
                              (Returned u, ev) \<Rightarrow>
                                (None,
                                 warning @ info @ ev @
                                 [stdout_write renderSuccessfulCommand, metric_gauge ''duration'']
                                 @ flush_events world)
                            | (Threw err, ev) \<Rightarrow>
                                (Some UPLOAD_ERROR_EXIT_CODE,
                                 warning @ info @ ev @
                                 [stderr_write (errorMessage (message err))]
                                 @ flush_events world))))))"

text \<open>The number of calls of \<^verbatim>\<open>api.uploadDependencies\<close> in a trace.\<close>

fun is_upload_call :: "upload_event \<Rightarrow> bool" where
  "is_upload_call (api_uploadDependencies p) = True"
| "is_upload_call e = False"

definition upload_calls :: "upload_event list \<Rightarrow> nat" where
  "upload_calls ev = length (filter is_upload_call ev)"


text \<open>
  The classes of input the command refuses, and a response that the retry loop
  answers with another attempt (an error with a response whose status is not in
  \<open>errorCodesNoRetry\<close>).
\<close>

definition invalidInput :: "UploadCommand \<Rightarrow> bool" where
  "invalidInput cmd =
     (falsy (source cmd)
      \<or> (case source cmd of None \<Rightarrow> False | Some src \<Rightarrow> src \<notin> set SUPPORTED_SOURCES)
      \<or> falsy (service cmd) \<or> falsy (appKey cmd) \<or> falsy (apiKey cmd))"

definition retryable :: "error option \<Rightarrow> bool" where
  "retryable r =
     (case r of
        None \<Rightarrow> False
      | Some err \<Rightarrow>
          (case response_status err of
             None \<Rightarrow> False
           | Some status \<Rightarrow> status \<notin> set errorCodesNoRetry))"

text \<open>The two messages \<^verbatim>\<open>uploadDependencies\<close> writes for a failed upload.\<close>

fun is_failure_message :: "upload_event \<Rightarrow> bool" where
  "is_failure_message (stdout_write (renderFailedUpload m)) = True"
| "is_failure_message (stdout_write (renderFailedUploadBecauseOf403 m)) = True"
| "is_failure_message e = False"

section \<open>The synthetics run-tests command (commands/synthetics/run-test.ts)\<close>

subsection \<open>Data\<close>

text \<open>
  The interfaces the command works on. Only the fields the command reads are kept,
  and a field name that two interfaces share carries the interface as a prefix.
\<close>

datatype ExecutionRule = BLOCKING | NON_BLOCKING | SKIPPED

text \<open>
  A configuration override is a JavaScript object: a map from its own keys to
  values, and a value may be an object again (\<^verbatim>\<open>headers\<close>, \<^verbatim>\<open>variables\<close>).
\<close>

datatype jsval =
    JNum int
  | JStr string
  | JBool bool
  | JArr "jsval list"
  | JObj "(string \<times> jsval) list"

type_synonym ConfigOverride = "string \<rightharpoonup> jsval"

record SuiteTest =
  test_config :: "ConfigOverride option"
  test_id :: string

record Suite =
  suite_name :: string
  suite_tests :: "SuiteTest list option"

record TriggerConfig =
  trigger_suite :: string
  trigger_config :: ConfigOverride
  trigger_id :: string

record CiOptions =
  executionRule :: ExecutionRule

record TestOptions =
  ci :: "CiOptions option"

record Test =
  name :: string
  options :: TestOptions
  public_id :: string

record Result =
  errorCode :: "string option"
  eventType :: string
  passed :: bool

record PollResult =
  dc_id :: int
  result :: Result
  resultID :: string

record TriggerResult =
  device :: string
  location :: int
  triggered_public_id :: string
  result_id :: string

record Location =
  location_id :: int
  display_name :: string

text \<open>
  What \<^verbatim>\<open>runTests\<close> resolves to. The command tests \<^verbatim>\<open>triggers.results\<close> before it
  reads it, and the interface declares no \<^verbatim>\<open>locations\<close>: either may be undefined.
\<close>

record Trigger =
  locations :: "Location list option"
  results :: "TriggerResult list option"

record TunnelInfo =
  host :: string
  tunnel_id :: string
  privateKey :: string

record TestPayload =
  overridden_public_id :: string
  tunnel :: "TunnelInfo option"

record Summary =
  summary_passed :: nat
  summary_failed :: nat
  summary_skipped :: nat

type_synonym Results = "string \<rightharpoonup> PollResult list"

text \<open>What \<^verbatim>\<open>getTestsToTrigger\<close> resolves to.\<close>

record TestsToTrigger =
  tests :: "Test list"
  overriddenTestsToTrigger :: "TestPayload list"
  summary :: Summary

text \<open>
  The fields of \<^verbatim>\<open>RunTestCommand\<close>: the command line options, and the fields of
  its \<^verbatim>\<open>config\<close> after \<^verbatim>\<open>parseConfigFile\<close> (prefix \<open>config\<close>).
\<close>

record RunTestCommand =
  cli_apiKey :: "string option"
  cli_appKey :: "string option"
  config_apiKey :: "string option"
  config_appKey :: "string option"
  config_files :: string
  config_global :: ConfigOverride
  config_pollingTimeout :: nat
  config_tunnel :: bool
  fileGlobs :: "string list option"
  publicIds :: "string list"
  shouldOpenTunnel :: "bool option"
  testSearchQuery :: "string option"

text \<open>
  What the command is run against. The helpers of module utils, the API client and
  the tunnel are not part of the sources; each is called at most once in a run
  (\<^verbatim>\<open>getSuites\<close> once for every glob), and the world fixes how that call ends.
\<close>

record RunTestWorld =
  searchTests_result :: "string list completion"
  getSuites_result :: "string \<Rightarrow> Suite list"
  getTestsToTrigger_result :: "TestsToTrigger completion"
  getPresignedURL_result :: "string completion"
  tunnel_start_result :: "TunnelInfo completion"
  runTests_result :: "Trigger completion"
  waitForResults_result :: "Results completion"

text \<open>
  The effects of the command, in the order they happen: the calls of the reporter,
  of the tunnel, and of the helpers that reach the remote API, with their arguments.
  \<open>reporter_error\<close> carries the text of the message and the error whose stack it
  prints.
\<close>

datatype run_event =
    reporter_log string
  | reporter_error string "error option"
  | api_getPresignedURL "string list"
  | tunnel_start
  | tunnel_stop
  | call_runTests "TestPayload list"
  | call_waitForResults "TriggerResult list" nat
  | reporter_reportStart
  | reporter_testEnd Test "PollResult list option"
  | reporter_runEnd Summary

subsection \<open>Selecting the tests\<close>

text \<open>\<^verbatim>\<open>a || b\<close> on optional strings.\<close>

definition or_else :: "string option \<Rightarrow> string option \<Rightarrow> string option" where
  "or_else a b = (if falsy a then b else a)"

definition getApiHelper :: "RunTestCommand \<Rightarrow> unit completion \<times> run_event list" where
  "getApiHelper cmd =
     (let apiKey' = or_else (cli_apiKey cmd) (config_apiKey cmd);
          appKey' = or_else (cli_appKey cmd) (config_appKey cmd)
      in
        if falsy appKey' \<or> falsy apiKey' then
          (Threw (Error ''API and/or Application keys are missing'' None),
           (if falsy appKey'
            then [reporter_error ''Missing DATADOG_APP_KEY in your environment.'' None] else [])
           @ (if falsy apiKey'
              then [reporter_error ''Missing DATADOG_API_KEY in your environment.'' None] else []))
        else (Returned (), []))"

text \<open>
  The object spread \<^verbatim>\<open>{...a, ...b}\<close>: the own keys of \<open>a\<close>, then those of \<open>b\<close>,
  a key of \<open>b\<close> replacing the value \<open>a\<close> has for it. Spreading \<^verbatim>\<open>undefined\<close> adds
  nothing.
\<close>

definition spread :: "ConfigOverride \<Rightarrow> ConfigOverride option \<Rightarrow> ConfigOverride" where
  "spread a b = (case b of None \<Rightarrow> a | Some c \<Rightarrow> a ++ c)"

definition suiteTests :: "ConfigOverride \<Rightarrow> Suite \<Rightarrow> TriggerConfig list" where
  "suiteTests global suite =
     (case suite_tests suite of
        None \<Rightarrow> []
      | Some ts \<Rightarrow>
          map (\<lambda>test.
                 \<lparr>trigger_suite = suite_name suite,
                  trigger_config = spread global (test_config test),
                  trigger_id = test_id test\<rparr>) ts)"

definition getTestsList :: "RunTestCommand \<Rightarrow> RunTestWorld \<Rightarrow> TriggerConfig list completion" where
  "getTestsList cmd world =
     (if \<not> falsy (testSearchQuery cmd) then
        (case searchTests_result world of
           Threw e \<Rightarrow> Threw e
         | Returned found \<Rightarrow>
             Returned
               (map (\<lambda>pid.
                       \<lparr>trigger_suite =
                          ''Query: '' @ (case testSearchQuery cmd of None \<Rightarrow> [] | Some q \<Rightarrow> q),
                        trigger_config = config_global cmd,
                        trigger_id = pid\<rparr>) found))
      else
        (let listOfGlobs = (case fileGlobs cmd of None \<Rightarrow> [config_files cmd] | Some gs \<Rightarrow> gs);
             suites =
               filter (\<lambda>suite. suite_tests suite \<noteq> None)
                 (concat (map (getSuites_result world) listOfGlobs))
         in Returned (concat (map (suiteTests (config_global cmd)) suites))))"

definition selectTests :: "RunTestCommand \<Rightarrow> RunTestWorld \<Rightarrow> TriggerConfig list completion" where
  "selectTests cmd world =
     (let publicIdsFromCli =
            map (\<lambda>pid.
                   \<lparr>trigger_suite = ''CLI Suite'', trigger_config = config_global cmd,
                    trigger_id = pid\<rparr>) (publicIds cmd)
      in if publicIdsFromCli \<noteq> [] then Returned publicIdsFromCli else getTestsList cmd world)"

subsection \<open>Outcome of a test\<close>

text \<open>
  \<^verbatim>\<open>hasTestSucceeded\<close> of module utils is not part of the sources: the functions that
  call it take it as the parameter \<open>hts\<close>. Its argument is \<^verbatim>\<open>results[public_id]\<close>,
  which is undefined (\<open>None\<close>) for a key the results do not have.
\<close>

definition isNonBlocking :: "Test \<Rightarrow> bool" where
  "isNonBlocking t =
     (case ci (options t) of None \<Rightarrow> False | Some c \<Rightarrow> executionRule c = NON_BLOCKING)"

definition sortTestsByOutcome ::
  "(PollResult list option \<Rightarrow> bool) \<Rightarrow> Results \<Rightarrow> Test \<Rightarrow> Test \<Rightarrow> int" where
  "sortTestsByOutcome hts res t1 t2 =
     (let success1 = hts (res (public_id t1));
          success2 = hts (res (public_id t2));
          isNonBlockingTest1 = isNonBlocking t1;
          isNonBlockingTest2 = isNonBlocking t2
      in
        if success1 = success2 then
          (if isNonBlockingTest1 = isNonBlockingTest2 then 0
           else if isNonBlockingTest1 then - 1 else 1)
        else if success1 then - 1 else 1)"

text \<open>
  \<^verbatim>\<open>Array.prototype.sort\<close> with a comparator: a stable sort, an element going before
  the elements it does not compare greater than. Written as an insertion sort.
\<close>

fun insert_by :: "('a \<Rightarrow> 'a \<Rightarrow> int) \<Rightarrow> 'a \<Rightarrow> 'a list \<Rightarrow> 'a list" where
  "insert_by cmp x [] = [x]"
| "insert_by cmp x (y # ys) =
     (if cmp x y \<le> 0 then x # y # ys else y # insert_by cmp x ys)"

definition sort_by :: "('a \<Rightarrow> 'a \<Rightarrow> int) \<Rightarrow> 'a list \<Rightarrow> 'a list" where
  "sort_by cmp xs = foldr (insert_by cmp) xs []"

text \<open>One round of the loop over the sorted tests: the counters and the verdict.\<close>

definition countTest ::
  "(PollResult list option \<Rightarrow> bool) \<Rightarrow> Results \<Rightarrow> Test \<Rightarrow> Summary \<times> bool \<Rightarrow> Summary \<times> bool" where
  "countTest hts res test acc =
     (case acc of
        (sm, hasSucceeded) \<Rightarrow>
          if hts (res (public_id test))
          then (sm\<lparr>summary_passed := summary_passed sm + 1\<rparr>, hasSucceeded)
          else (sm\<lparr>summary_failed := summary_failed sm + 1\<rparr>,
                if \<not> isNonBlocking test then False else hasSucceeded))"

subsection \<open>The command\<close>

definition wantsTunnel :: "RunTestCommand \<Rightarrow> bool" where
  "wantsTunnel cmd = (case shouldOpenTunnel cmd of None \<Rightarrow> config_tunnel cmd | Some b \<Rightarrow> b)"

definition add_events :: "'e list \<Rightarrow> 'a \<times> 'e list \<Rightarrow> 'a \<times> 'e list" where
  "add_events earlier r = (fst r, earlier @ snd r)"

text \<open>
  The error of reading \<^verbatim>\<open>triggers.locations.reduce\<close> when \<^verbatim>\<open>triggers.locations\<close> is
  undefined (the wording of the message is the runtime's).
\<close>

definition locationsTypeError :: error where
  "locationsTypeError = Error ''TypeError: triggers.locations is undefined'' None"

text \<open>
  The \<^verbatim>\<open>try\<close> block of \<^verbatim>\<open>execute\<close> with its \<^verbatim>\<open>catch\<close> and \<^verbatim>\<open>finally\<close>; \<open>opened\<close>
  says whether the variable \<^verbatim>\<open>tunnel\<close> is defined. After the results have arrived
  and the tests are sorted, the start is reported and the names of the locations
  are read from the trigger, which throws when it has no locations; the \<^verbatim>\<open>catch\<close>
  turns that error, like one of \<^verbatim>\<open>waitForResults\<close>, into status 1. The names
  themselves only go to the reporter and are not kept. The reporter is taken not to
  throw, and \<^verbatim>\<open>hasTestSucceeded\<close> to return a boolean, as their types say.
\<close>

definition pollAndReport ::
  "(PollResult list option \<Rightarrow> bool) \<Rightarrow> RunTestCommand \<Rightarrow> RunTestWorld \<Rightarrow> Trigger
   \<Rightarrow> TriggerResult list \<Rightarrow> Test list \<Rightarrow> Summary \<Rightarrow> bool
   \<Rightarrow> int completion \<times> run_event list" where
  "pollAndReport hts cmd world triggers triggerResults ts sm opened =
     (let stop = (if opened then [tunnel_stop] else []) in
        case waitForResults_result world of
          Threw e \<Rightarrow>
            (Returned 1,
             [call_waitForResults triggerResults (config_pollingTimeout cmd),
              reporter_error '' ERROR '' (Some e)] @ stop)
        | Returned res \<Rightarrow>
            (let sorted = sort_by (sortTestsByOutcome hts res) ts in
               case locations triggers of
                 None \<Rightarrow>
                   (Returned 1,
                    [call_waitForResults triggerResults (config_pollingTimeout cmd),
                     reporter_reportStart,
                     reporter_error '' ERROR '' (Some locationsTypeError)] @ stop)
               | Some locationList \<Rightarrow>
                   (let counted = fold (countTest hts res) sorted (sm, True) in
                      (Returned (if snd counted then 0 else 1),
                       [call_waitForResults triggerResults (config_pollingTimeout cmd),
                        reporter_reportStart]
                       @ map (\<lambda>t. reporter_testEnd t (res (public_id t))) sorted
                       @ [reporter_runEnd (fst counted)] @ stop))))"

text \<open>From the call of \<^verbatim>\<open>runTests\<close> on.\<close>

definition triggerAndReport ::
  "(PollResult list option \<Rightarrow> bool) \<Rightarrow> RunTestCommand \<Rightarrow> RunTestWorld \<Rightarrow> Test list
   \<Rightarrow> TestPayload list \<Rightarrow> Summary \<Rightarrow> bool \<Rightarrow> int completion \<times> run_event list" where
  "triggerAndReport hts cmd world ts overridden sm opened =
     (case runTests_result world of
        Threw e \<Rightarrow> (Threw e, [call_runTests overridden])
      | Returned triggers \<Rightarrow>
          if ts = [] then
            (Returned 0, [call_runTests overridden, reporter_log ''No test to run.''])
          else
            (case results triggers of
               None \<Rightarrow> (Threw (Error ''No result to poll.'' None), [call_runTests overridden])
             | Some triggerResults \<Rightarrow>
                 add_events [call_runTests overridden]
                   (pollAndReport hts cmd world triggers triggerResults ts sm opened)))"

definition tunnelNotice :: string where
  "tunnelNotice =
     ''You are using tunnel option, the chosen location(s) will be overridden by a location in your account region.''"

text \<open>From the tunnel on, with what \<^verbatim>\<open>getTestsToTrigger\<close> resolved to.\<close>

definition runSelected ::
  "(PollResult list option \<Rightarrow> bool) \<Rightarrow> RunTestCommand \<Rightarrow> RunTestWorld \<Rightarrow> TestsToTrigger
   \<Rightarrow> int completion \<times> run_event list" where
  "runSelected hts cmd world selected =
     (let publicIdsToTrigger = map public_id (tests selected) in
        if wantsTunnel cmd then
          (case getPresignedURL_result world of
             Threw e \<Rightarrow>
               (Threw e, [reporter_log tunnelNotice, api_getPresignedURL publicIdsToTrigger])
           | Returned presignedURL \<Rightarrow>
               (case tunnel_start_result world of
                  Threw e \<Rightarrow>
                    (Returned 1,
                     [reporter_log tunnelNotice, api_getPresignedURL publicIdsToTrigger,
                      tunnel_start, reporter_error '' ERROR on tunnel start '' (Some e)])
                | Returned tunnelInfo \<Rightarrow>
                    add_events
                      [reporter_log tunnelNotice, api_getPresignedURL publicIdsToTrigger,
                       tunnel_start]
                      (triggerAndReport hts cmd world (tests selected)
                         (map (\<lambda>testToTrigger. testToTrigger\<lparr>tunnel := Some tunnelInfo\<rparr>)
                            (overriddenTestsToTrigger selected))
                         (summary selected) True)))
        else
          triggerAndReport hts cmd world (tests selected) (overriddenTestsToTrigger selected)
            (summary selected) False)"

text \<open>
  \<^verbatim>\<open>RunTestCommand.execute\<close>: the status it returns or the error it throws, and its
  effects. The messages are written without their final newline.
\<close>

definition RunTestCommand_execute ::
  "(PollResult list option \<Rightarrow> bool) \<Rightarrow> RunTestCommand \<Rightarrow> RunTestWorld
   \<Rightarrow> int completion \<times> run_event list" where
  "RunTestCommand_execute hts cmd world =
     (case getApiHelper cmd of
        (Threw e, ev) \<Rightarrow> (Threw e, ev)
      | (Returned api, ev) \<Rightarrow>
          (case selectTests cmd world of
             Threw e \<Rightarrow> (Threw e, ev)
           | Returned testsToTrigger \<Rightarrow>
               if testsToTrigger = [] then
                 (Returned 0, ev @ [reporter_log ''No test suites to run.''])
               else
                 (case getTestsToTrigger_result world of
                    Threw e \<Rightarrow> (Threw e, ev)
                  | Returned selected \<Rightarrow> add_events ev (runSelected hts cmd world selected))))"

text \<open>
  Modelled from the spec: the runner that calls \<^verbatim>\<open>execute\<close> and turns how it ends
  into the exit status of the process (class \<^verbatim>\<open>Command\<close> of the clipanion package,
  which the command extends; it is not part of the sources). The specification
  (4.4 and 7): the status the command returns is the exit status, and an error
  that unwinds to the top sets the failing exit code, which is 1.
\<close>

definition exitStatus :: "int completion \<Rightarrow> int" where
  "exitStatus r = (case r of Returned code \<Rightarrow> code | Threw e \<Rightarrow> 1)"

text \<open>How often the tunnel is started and stopped in a trace.\<close>

definition tunnel_starts :: "run_event list \<Rightarrow> nat" where
  "tunnel_starts ev = length (filter (\<lambda>e. e = tunnel_start) ev)"

definition tunnel_stops :: "run_event list \<Rightarrow> nat" where
  "tunnel_stops ev = length (filter (\<lambda>e. e = tunnel_stop) ev)"


text \<open>What the verdict of the run is read from.\<close>

definition blockingFailure ::
  "(PollResult list option \<Rightarrow> bool) \<Rightarrow> Results \<Rightarrow> Test \<Rightarrow> bool" where
  "blockingFailure hts res t = (\<not> hts (res (public_id t)) \<and> \<not> isNonBlocking t)"

definition keysPresent :: "RunTestCommand \<Rightarrow> bool" where
  "keysPresent cmd =
     (\<not> falsy (or_else (cli_appKey cmd) (config_appKey cmd))
      \<and> \<not> falsy (or_else (cli_apiKey cmd) (config_apiKey cmd)))"

text \<open>No tunnel is asked for, or its URL was obtained and it started.\<close>

definition tunnelReady :: "RunTestCommand \<Rightarrow> RunTestWorld \<Rightarrow> bool" where
  "tunnelReady cmd world =
     (if wantsTunnel cmd then
        (case getPresignedURL_result world of
           Threw e \<Rightarrow> False
         | Returned url \<Rightarrow>
             (case tunnel_start_result world of Threw e \<Rightarrow> False | Returned info \<Rightarrow> True))
      else True)"

fun is_runTests_call :: "run_event \<Rightarrow> bool" where
  "is_runTests_call (call_runTests payloads) = True"
| "is_runTests_call e = False"

definition runTests_calls :: "run_event list \<Rightarrow> nat" where
  "runTests_calls ev = length (filter is_runTests_call ev)"

text \<open>The suites \<^verbatim>\<open>getTestsList\<close> reads when no search query is given.\<close>

definition discoveredSuites :: "RunTestCommand \<Rightarrow> RunTestWorld \<Rightarrow> Suite list" where
  "discoveredSuites cmd world =
     filter (\<lambda>suite. suite_tests suite \<noteq> None)
       (concat (map (getSuites_result world)
          (case fileGlobs cmd of None \<Rightarrow> [config_files cmd] | Some gs \<Rightarrow> gs)))"

section \<open>The helpers of module utils, from the specification\<close>

subsection \<open>hasTestSucceeded\<close>

text \<open>
  Modelled from the spec: \<^verbatim>\<open>hasTestSucceeded\<close> of module utils, which is not part of
  the sources. The specification (4.1): a test succeeds iff all of its
  \<^verbatim>\<open>PollResult.result.passed\<close> are true, and the empty result set is not a success.
\<close>

definition hasTestSucceeded :: "PollResult list \<Rightarrow> bool" where
  "hasTestSucceeded rs = (rs \<noteq> [] \<and> list_all (\<lambda>r. passed (result r)) rs)"

subsection \<open>waitForResults\<close>

text \<open>
  Modelled from the spec: \<^verbatim>\<open>waitForResults\<close> of module utils, which is not part of
  the sources. The specification (4.3): the set of outstanding result ids is seeded
  from the trigger results; on a fixed interval one poll is issued; every returned
  result whose event type says it is finished moves its id from outstanding to
  resolved and is appended to the list of the test that owns it; the loop ends
  when nothing is outstanding (COMPLETE) or when the time since its start reaches
  the timeout (TIMEOUT, at once when the timeout is 0), and what is outstanding
  then is reported with a made-up failing result; a poll that fails changes nothing.
  \<open>poll n\<close> is the answer to the \<open>n\<close>-th poll, \<open>None\<close> when it fails.
\<close>

definition POLLING_INTERVAL :: nat where
  "POLLING_INTERVAL = 5000"

definition finished :: "PollResult \<Rightarrow> bool" where
  "finished r = (eventType (result r) = ''finished'')"

definition owner :: "TriggerResult list \<Rightarrow> string \<Rightarrow> string option" where
  "owner trs rid = map_option triggered_public_id (find (\<lambda>tr. result_id tr = rid) trs)"

definition appendResult :: "Results \<Rightarrow> string \<Rightarrow> PollResult \<Rightarrow> Results" where
  "appendResult res pid r = res(pid \<mapsto> (case res pid of None \<Rightarrow> [r] | Some rs \<Rightarrow> rs @ [r]))"

definition resolveOne ::
  "TriggerResult list \<Rightarrow> PollResult \<Rightarrow> string list \<times> Results \<Rightarrow> string list \<times> Results" where
  "resolveOne trs r st =
     (case st of
        (outstanding, res) \<Rightarrow>
          if finished r \<and> resultID r \<in> set outstanding then
            (case owner trs (resultID r) of
               None \<Rightarrow> (outstanding, res)
             | Some pid \<Rightarrow> (removeAll (resultID r) outstanding, appendResult res pid r))
          else (outstanding, res))"

datatype poller_end = COMPLETE Results | TIMEOUT Results "string list"

function pollLoop ::
  "(nat \<Rightarrow> PollResult list option) \<Rightarrow> TriggerResult list \<Rightarrow> nat \<Rightarrow> nat \<Rightarrow> nat
   \<Rightarrow> string list \<Rightarrow> Results \<Rightarrow> poller_end" where
  "pollLoop poll trs timeoutMs tick elapsed outstanding res =
     (if outstanding = [] then COMPLETE res
      else if timeoutMs \<le> elapsed then TIMEOUT res outstanding
      else
        (case (case poll tick of
                 None \<Rightarrow> (outstanding, res)
               | Some rs \<Rightarrow> fold (resolveOne trs) rs (outstanding, res)) of
           (outstanding', res') \<Rightarrow>
             pollLoop poll trs timeoutMs (Suc tick) (elapsed + POLLING_INTERVAL)
               outstanding' res'))"
  by pat_completeness auto
termination
  by (relation "measure (\<lambda>(poll, trs, timeoutMs, tick, elapsed, outstanding, res).
                  timeoutMs - elapsed)")
     (auto simp: POLLING_INTERVAL_def)

definition timedOutResult :: "string \<Rightarrow> PollResult" where
  "timedOutResult rid =
     \<lparr>dc_id = 0,
      result = \<lparr>errorCode = Some ''TIMEOUT'', eventType = ''finished'', passed = False\<rparr>,
      resultID = rid\<rparr>"

definition reportTimedOut :: "TriggerResult list \<Rightarrow> string \<Rightarrow> Results \<Rightarrow> Results" where
  "reportTimedOut trs rid res =
     (case owner trs rid of
        None \<Rightarrow> res
      | Some pid \<Rightarrow> appendResult res pid (timedOutResult rid))"

definition pollUntilEnd ::
  "(nat \<Rightarrow> PollResult list option) \<Rightarrow> TriggerResult list \<Rightarrow> nat \<Rightarrow> poller_end" where
  "pollUntilEnd poll trs timeoutMs =
     pollLoop poll trs timeoutMs 0 0 (remdups (map result_id trs)) Map.empty"

definition waitForResults ::
  "(nat \<Rightarrow> PollResult list option) \<Rightarrow> TriggerResult list \<Rightarrow> nat \<Rightarrow> Results" where
  "waitForResults poll trs timeoutMs =
     (case pollUntilEnd poll trs timeoutMs of
        COMPLETE res \<Rightarrow> res
      | TIMEOUT res outstanding \<Rightarrow> fold (reportTimedOut trs) outstanding res)"


text \<open>What is still outstanding when the poll loop ends.\<close>

fun outstandingAtEnd :: "poller_end \<Rightarrow> string list" where
  "outstandingAtEnd (COMPLETE res) = []"
| "outstandingAtEnd (TIMEOUT res outstanding) = outstanding"

text \<open>
  The invariant of the poll loop: the results are keyed by triggered tests only, and
  every triggered instance is outstanding or its test has an entry. And the fact
  that a result is listed for a test.
\<close>

definition poller_inv :: "TriggerResult list \<Rightarrow> string list \<Rightarrow> Results \<Rightarrow> bool" where
  "poller_inv trs outstanding res =
     (dom res \<subseteq> triggered_public_id ` set trs
      \<and> (\<forall>tr \<in> set trs. result_id tr \<in> set outstanding \<or> triggered_public_id tr \<in> dom res))"

definition has_result :: "Results \<Rightarrow> string \<Rightarrow> PollResult \<Rightarrow> bool" where
  "has_result res pid r = (\<exists>rs. res pid = Some rs \<and> r \<in> set rs)"

section \<open>Example runs\<close>

subsection \<open>Uploads\<close>

definition upload_cmd :: UploadCommand where
  "upload_cmd =
     \<lparr>apiKey = Some ''api'', appKey = Some ''app'', dependenciesFilePath = ''deps.json'',
      dryRun = False, releaseVersion = Some ''1.2'', service = Some ''shop'',
      source = Some ''snyk''\<rparr>"

definition upload_cmd_dry :: UploadCommand where
  "upload_cmd_dry = upload_cmd\<lparr>dryRun := True\<rparr>"

definition upload_cmd_no_source :: UploadCommand where
  "upload_cmd_no_source = upload_cmd\<lparr>source := None\<rparr>"

definition upload_payload :: Payload where
  "upload_payload =
     \<lparr>payload_dependenciesFilePath = ''deps.json'', payload_service = ''shop'',
      payload_source = ''snyk'', payload_version = Some ''1.2''\<rparr>"

text \<open>Every upload is answered with status 500.\<close>

definition world_500 :: UploadWorld where
  "world_500 =
     \<lparr>fileExists = True,
      uploadResponse = (\<lambda>n. Some (Error ''Internal Server Error'' (Some 500))),
      flushError = None\<rparr>"

text \<open>The first upload is answered with status 500, the next ones with 403.\<close>

definition world_403 :: UploadWorld where
  "world_403 =
     \<lparr>fileExists = True,
      uploadResponse =
        (\<lambda>n. if n = 1 then Some (Error ''Internal Server Error'' (Some 500))
             else Some (Error ''Forbidden'' (Some 403))),
      flushError = None\<rparr>"

definition world_no_file :: UploadWorld where
  "world_no_file = world_500\<lparr>fileExists := False\<rparr>"

subsection \<open>Test runs\<close>

text \<open>
  The three tests of the specification's sorting example: A fails and is blocking,
  B passes, C fails and is non-blocking.
\<close>

definition testA :: Test where
  "testA =
     \<lparr>name = ''A'', options = \<lparr>ci = Some \<lparr>executionRule = BLOCKING\<rparr>\<rparr>,
      public_id = ''aaa-aaa-aaa''\<rparr>"

definition testB :: Test where
  "testB = \<lparr>name = ''B'', options = \<lparr>ci = None\<rparr>, public_id = ''bbb-bbb-bbb''\<rparr>"

definition testC :: Test where
  "testC =
     \<lparr>name = ''C'', options = \<lparr>ci = Some \<lparr>executionRule = NON_BLOCKING\<rparr>\<rparr>,
      public_id = ''ccc-ccc-ccc''\<rparr>"

definition passedResult :: "string \<Rightarrow> PollResult" where
  "passedResult rid =
     \<lparr>dc_id = 1, result = \<lparr>errorCode = None, eventType = ''finished'', passed = True\<rparr>,
      resultID = rid\<rparr>"

definition failedResult :: "string \<Rightarrow> PollResult" where
  "failedResult rid =
     \<lparr>dc_id = 1,
      result = \<lparr>errorCode = Some ''ASSERTION_FAILURE'', eventType = ''finished'', passed = False\<rparr>,
      resultID = rid\<rparr>"

definition results_ABC :: Results where
  "results_ABC =
     [''aaa-aaa-aaa'' \<mapsto> [failedResult ''1''],
      ''bbb-bbb-bbb'' \<mapsto> [passedResult ''2''],
      ''ccc-ccc-ccc'' \<mapsto> [failedResult ''3'']]"

text \<open>
  \<^verbatim>\<open>hasTestSucceeded\<close> as the example runs use it: the function of the
  specification, with no success for an undefined argument.
\<close>

definition succeeded :: "PollResult list option \<Rightarrow> bool" where
  "succeeded r = (case r of None \<Rightarrow> False | Some rs \<Rightarrow> hasTestSucceeded rs)"

definition triggered :: "string \<Rightarrow> string \<Rightarrow> TriggerResult" where
  "triggered pid rid =
     \<lparr>device = ''chrome.laptop_large'', location = 1, triggered_public_id = pid,
      result_id = rid\<rparr>"

definition triggers_ABC :: "TriggerResult list" where
  "triggers_ABC =
     [triggered ''aaa-aaa-aaa'' ''1'', triggered ''bbb-bbb-bbb'' ''2'',
      triggered ''ccc-ccc-ccc'' ''3'']"

definition noSummary :: Summary where
  "noSummary = \<lparr>summary_passed = 0, summary_failed = 0, summary_skipped = 0\<rparr>"

definition payloads_ABC :: "TestPayload list" where
  "payloads_ABC =
     [\<lparr>overridden_public_id = ''aaa-aaa-aaa'', tunnel = None\<rparr>,
      \<lparr>overridden_public_id = ''bbb-bbb-bbb'', tunnel = None\<rparr>,
      \<lparr>overridden_public_id = ''ccc-ccc-ccc'', tunnel = None\<rparr>]"

definition tunnelInfo0 :: TunnelInfo where
  "tunnelInfo0 = \<lparr>host = ''tunnel.example.org'', tunnel_id = ''t1'', privateKey = ''key''\<rparr>"

text \<open>The three tests are named on the command line; no tunnel is asked for.\<close>

definition run_cmd :: RunTestCommand where
  "run_cmd =
     \<lparr>cli_apiKey = None, cli_appKey = None, config_apiKey = Some ''api'',
      config_appKey = Some ''app'', config_files = ''{,!(node_modules)/**/}*.synthetics.json'',
      config_global = Map.empty, config_pollingTimeout = 120000, config_tunnel = False,
      fileGlobs = None, publicIds = [''aaa-aaa-aaa'', ''bbb-bbb-bbb'', ''ccc-ccc-ccc''],
      shouldOpenTunnel = None, testSearchQuery = None\<rparr>"

definition run_cmd_tunnel :: RunTestCommand where
  "run_cmd_tunnel = run_cmd\<lparr>shouldOpenTunnel := Some True\<rparr>"

definition run_cmd_nothing :: RunTestCommand where
  "run_cmd_nothing = run_cmd\<lparr>publicIds := []\<rparr>"

definition cli_selection :: "TriggerConfig list" where
  "cli_selection =
     [\<lparr>trigger_suite = ''CLI Suite'', trigger_config = Map.empty, trigger_id = ''aaa-aaa-aaa''\<rparr>,
      \<lparr>trigger_suite = ''CLI Suite'', trigger_config = Map.empty, trigger_id = ''bbb-bbb-bbb''\<rparr>,
      \<lparr>trigger_suite = ''CLI Suite'', trigger_config = Map.empty, trigger_id = ''ccc-ccc-ccc''\<rparr>]"

definition locations_ABC :: "Location list" where
  "locations_ABC = [\<lparr>location_id = 1, display_name = ''Frankfurt (AWS)''\<rparr>]"

text \<open>Every call succeeds, and the three tests have the results above.\<close>

definition world_ABC :: RunTestWorld where
  "world_ABC =
     \<lparr>searchTests_result = Returned [],
      getSuites_result = (\<lambda>glob. []),
      getTestsToTrigger_result =
        Returned \<lparr>tests = [testA, testB, testC], overriddenTestsToTrigger = payloads_ABC,
                  summary = noSummary\<rparr>,
      getPresignedURL_result = Returned ''wss://tunnel.example.org/connect'',
      tunnel_start_result = Returned tunnelInfo0,
      runTests_result =
        Returned \<lparr>locations = Some locations_ABC, results = Some triggers_ABC\<rparr>,
      waitForResults_result = Returned results_ABC\<rparr>"

text \<open>Only B and C are run.\<close>

definition world_BC :: RunTestWorld where
  "world_BC =
     world_ABC\<lparr>getTestsToTrigger_result :=
       Returned \<lparr>tests = [testB, testC], overriddenTestsToTrigger = tl payloads_ABC,
                 summary = noSummary\<rparr>\<rparr>"

definition world_tunnel_fails :: RunTestWorld where
  "world_tunnel_fails = world_ABC\<lparr>tunnel_start_result := Threw (Error ''ECONNREFUSED'' None)\<rparr>"

definition world_trigger_fails :: RunTestWorld where
  "world_trigger_fails =
     world_ABC\<lparr>runTests_result := Threw (Error ''Bad Gateway'' (Some 502))\<rparr>"

definition world_no_results :: RunTestWorld where
  "world_no_results =
     world_ABC\<lparr>runTests_result :=
       Returned \<lparr>locations = Some locations_ABC, results = None\<rparr>\<rparr>"

text \<open>Only B and C are run, and the trigger has no locations.\<close>

definition world_no_locations :: RunTestWorld where
  "world_no_locations =
     world_BC\<lparr>runTests_result := Returned \<lparr>locations = None, results = Some triggers_ABC\<rparr>\<rparr>"

definition world_poll_fails :: RunTestWorld where
  "world_poll_fails = world_ABC\<lparr>waitForResults_result := Threw (Error ''socket hang up'' None)\<rparr>"

text \<open>Every selected test is skipped: there is a payload for each, and no test to wait for.\<close>

definition world_all_skipped :: RunTestWorld where
  "world_all_skipped =
     world_ABC\<lparr>getTestsToTrigger_result :=
       Returned \<lparr>tests = [], overriddenTestsToTrigger = payloads_ABC,
                 summary = \<lparr>summary_passed = 0, summary_failed = 0, summary_skipped = 3\<rparr>\<rparr>\<rparr>"

text \<open>The override example of the specification: global and per-test headers.\<close>

definition global_headers :: ConfigOverride where
  "global_headers = [''headers'' \<mapsto> JObj [(''a'', JNum 1)]]"

definition suite_shop :: Suite where
  "suite_shop =
     \<lparr>suite_name = ''shop.synthetics.json'',
      suite_tests =
        Some [\<lparr>test_config = Some [''headers'' \<mapsto> JObj [(''b'', JNum 2)]],
               test_id = ''aaa-aaa-aaa''\<rparr>]\<rparr>"

definition run_cmd_suites :: RunTestCommand where
  "run_cmd_suites = run_cmd\<lparr>publicIds := [], config_global := global_headers\<rparr>"

definition world_suites :: RunTestWorld where
  "world_suites = world_ABC\<lparr>getSuites_result := (\<lambda>glob. [suite_shop])\<rparr>"

subsection \<open>Polling\<close>

text \<open>
  Two instances are triggered; the first poll returns the result of the first one,
  every later poll fails.
\<close>

definition triggers_AB :: "TriggerResult list" where
  "triggers_AB = [triggered ''aaa-aaa-aaa'' ''1'', triggered ''bbb-bbb-bbb'' ''2'']"

definition poll_once :: "nat \<Rightarrow> PollResult list option" where
  "poll_once n = (if n = 0 then Some [passedResult ''1''] else None)"


section \<open>Properties of the upload command\<close>

subsection \<open>The retry loop\<close>

lemma retry_from_filter_le:
  assumes fn: "\<And>k. length (filter P (snd (fn k))) \<le> 1"
    and on: "\<And>e k. filter P (onRetry e k) = []"
  shows "length (filter P (snd (retry_from fn onRetry n left))) \<le> Suc left"
proof (induction left arbitrary: n)
  case 0
  show ?case using fn [of n]
    by (cases "fn n") (auto split: attempt.splits)
next
  case (Suc left)
  show ?case
  proof (cases "fn n")
    case (Pair a ev)
    have ev: "length (filter P ev) \<le> 1" using fn [of n] Pair by simp
    show ?thesis
    proof (cases a)
      case Resolved
      then show ?thesis using Pair ev by simp
    next
      case (Bailed e)
      then show ?thesis using Pair ev by simp
    next
      case (Rethrown e)
      obtain r ev' where rec: "retry_from fn onRetry (Suc n) left = (r, ev')"
        by (cases "retry_from fn onRetry (Suc n) left")
      have "length (filter P ev') \<le> Suc left" using Suc.IH [of "Suc n"] rec by simp
      then show ?thesis using Pair Rethrown rec ev on by simp
    qed
  qed
qed

lemma retry_from_filter_empty:
  assumes fn: "\<And>k. filter P (snd (fn k)) = []"
    and on: "\<And>e k. filter P (onRetry e k) = []"
  shows "filter P (snd (retry_from fn onRetry n left)) = []"
proof (induction left arbitrary: n)
  case 0
  show ?case using fn [of n]
    by (cases "fn n") (auto split: attempt.splits)
next
  case (Suc left)
  obtain a ev where Pair: "fn n = (a, ev)" by (cases "fn n")
  obtain r ev' where rec: "retry_from fn onRetry (Suc n) left = (r, ev')"
    by (cases "retry_from fn onRetry (Suc n) left")
  have "filter P ev = []" using fn [of n] Pair by simp
  moreover have "filter P ev' = []" using Suc.IH [of "Suc n"] rec by simp
  ultimately show ?case using Pair rec on by (cases a) simp_all
qed

lemma retry_from_stops_le:
  assumes fn: "\<And>k. length (filter P (snd (fn k))) \<le> 1"
    and on: "\<And>e k. filter P (onRetry e k) = []"
    and bail: "fn m = (Bailed err, evm)"
  shows "n \<le> m \<Longrightarrow> length (filter P (snd (retry_from fn onRetry n left))) \<le> Suc (m - n)"
proof (induction left arbitrary: n)
  case 0
  show ?case using fn [of n]
    by (cases "fn n") (auto split: attempt.splits)
next
  case (Suc left)
  obtain a ev where Pair: "fn n = (a, ev)" by (cases "fn n")
  have ev: "length (filter P ev) \<le> 1" using fn [of n] Pair by simp
  show ?case
  proof (cases a)
    case Resolved
    then show ?thesis using Pair ev by simp
  next
    case (Bailed e)
    then show ?thesis using Pair ev by simp
  next
    case (Rethrown e)
    then have "n \<noteq> m" using Pair bail by auto
    then have lt: "Suc n \<le> m" using Suc.prems by simp
    obtain r ev' where rec: "retry_from fn onRetry (Suc n) left = (r, ev')"
      by (cases "retry_from fn onRetry (Suc n) left")
    have "length (filter P ev') \<le> Suc (m - Suc n)" using Suc.IH [OF lt] rec by simp
    then show ?thesis using Pair Rethrown rec ev on lt by simp
  qed
qed

lemma retry_from_bails:
  assumes fn: "\<And>k. length (filter P (snd (fn k))) = 1"
    and on: "\<And>e k. filter P (onRetry e k) = []"
    and bail: "fn m = (Bailed err, evm)"
  shows "n \<le> m \<Longrightarrow> m \<le> n + left \<Longrightarrow> (\<And>k. n \<le> k \<Longrightarrow> k < m \<Longrightarrow> \<exists>e ev. fn k = (Rethrown e, ev))
    \<Longrightarrow> fst (retry_from fn onRetry n left) = Threw err
      \<and> length (filter P (snd (retry_from fn onRetry n left))) = Suc (m - n)"
proof (induction left arbitrary: n)
  case 0
  then have "n = m" by simp
  then show ?case using bail fn [of m] by simp
next
  case (Suc left)
  show ?case
  proof (cases "n = m")
    case True
    then show ?thesis using bail fn [of m] by simp
  next
    case False
    then have lt: "Suc n \<le> m" and nm: "n < m" using Suc.prems(1) by simp_all
    obtain e ev where fnn: "fn n = (Rethrown e, ev)" using Suc.prems(3) [of n] nm by auto
    have ev: "length (filter P ev) = 1" using fn [of n] fnn by simp
    obtain r ev' where rec: "retry_from fn onRetry (Suc n) left = (r, ev')"
      by (cases "retry_from fn onRetry (Suc n) left")
    have "fst (retry_from fn onRetry (Suc n) left) = Threw err
      \<and> length (filter P (snd (retry_from fn onRetry (Suc n) left))) = Suc (m - Suc n)"
      using Suc.prems by (intro Suc.IH [OF lt]) simp_all
    then show ?thesis using fnn rec ev on lt by simp
  qed
qed

lemma uploadAttempt_calls: "length (filter is_upload_call (snd (uploadAttempt cmd world p k))) \<le> 1"
  by (simp add: uploadAttempt_def split: option.splits)

lemma uploadAttempt_calls_eq:
  "\<not> dryRun cmd \<Longrightarrow> length (filter is_upload_call (snd (uploadAttempt cmd world p k))) = 1"
  by (simp add: uploadAttempt_def split: option.splits)

lemma onRetry_upload_calls: "filter is_upload_call (onRetry_upload e k) = []"
  by (simp add: onRetry_upload_def)

lemma uploadAttempt_retryable:
  "\<not> dryRun cmd \<Longrightarrow> retryable (uploadResponse world k) \<Longrightarrow> \<exists>e ev. uploadAttempt cmd world p k = (Rethrown e, ev)"
  by (auto simp: uploadAttempt_def retryable_def split: option.splits)

lemma uploadAttempt_bails:
  "\<not> dryRun cmd \<Longrightarrow> uploadResponse world m = Some err \<Longrightarrow> response_status err = Some status
   \<Longrightarrow> status \<in> set errorCodesNoRetry \<Longrightarrow> \<exists>ev. uploadAttempt cmd world p m = (Bailed err, ev)"
  by (auto simp: uploadAttempt_def split: option.splits)

lemma uploadDependencies_calls:
  "upload_calls (snd (uploadDependencies cmd world p))
   = length (filter is_upload_call (snd (retry_from (uploadAttempt cmd world p) onRetry_upload 1 5)))"
  by (cases "retry_from (uploadAttempt cmd world p) onRetry_upload 1 5")
     (auto simp: uploadDependencies_def retry_def upload_calls_def split: completion.splits)

lemma uploadDependencies_fst:
  "fst (uploadDependencies cmd world p)
   = fst (retry_from (uploadAttempt cmd world p) onRetry_upload 1 5)"
  by (cases "retry_from (uploadAttempt cmd world p) onRetry_upload 1 5")
     (auto simp: uploadDependencies_def retry_def split: completion.splits)

lemma uploadDependencies_calls_le: "upload_calls (snd (uploadDependencies cmd world p)) \<le> 6"
proof -
  have "length (filter is_upload_call (snd (retry_from (uploadAttempt cmd world p) onRetry_upload 1 5))) \<le> Suc 5"
    by (rule retry_from_filter_le [OF uploadAttempt_calls onRetry_upload_calls])
  then show ?thesis by (simp add: uploadDependencies_calls)
qed

lemma uploadDependencies_stops_le:
  assumes "\<not> dryRun cmd" "1 \<le> m" "uploadResponse world m = Some err"
    "response_status err = Some status" "status \<in> set errorCodesNoRetry"
  shows "upload_calls (snd (uploadDependencies cmd world p)) \<le> m"
proof -
  obtain evm where "uploadAttempt cmd world p m = (Bailed err, evm)"
    using uploadAttempt_bails [OF assms(1,3,4,5)] by blast
  then have "length (filter is_upload_call (snd (retry_from (uploadAttempt cmd world p) onRetry_upload 1 5))) \<le> Suc (m - 1)"
    using assms(2) by (intro retry_from_stops_le [OF uploadAttempt_calls onRetry_upload_calls]) 
  then show ?thesis using assms(2) by (simp add: uploadDependencies_calls)
qed

lemma uploadDependencies_bails:
  assumes "\<not> dryRun cmd" "1 \<le> m" "m \<le> 6" "\<And>k. 1 \<le> k \<Longrightarrow> k < m \<Longrightarrow> retryable (uploadResponse world k)"
    "uploadResponse world m = Some err"
    "response_status err = Some status" "status \<in> set errorCodesNoRetry"
  shows "fst (uploadDependencies cmd world p) = Threw err \<and> upload_calls (snd (uploadDependencies cmd world p)) = m"
proof -
  obtain evm where "uploadAttempt cmd world p m = (Bailed err, evm)"
    using uploadAttempt_bails [OF assms(1,5,6,7)] by blast
  then have "fst (retry_from (uploadAttempt cmd world p) onRetry_upload 1 5) = Threw err
      \<and> length (filter is_upload_call (snd (retry_from (uploadAttempt cmd world p) onRetry_upload 1 5))) = Suc (m - 1)"
    using assms(1,2,3,4)
    by (intro retry_from_bails [OF uploadAttempt_calls_eq onRetry_upload_calls])
       (auto intro: uploadAttempt_retryable)
  then show ?thesis using assms(2) by (simp add: uploadDependencies_calls uploadDependencies_fst)
qed

lemma uploadAttempt_no_failure_message:
  "filter is_failure_message (snd (uploadAttempt cmd world p k)) = []"
  by (simp add: uploadAttempt_def split: option.splits)

lemma onRetry_no_failure_message: "filter is_failure_message (onRetry_upload e k) = []"
  by (simp add: onRetry_upload_def)

lemma uploadDependencies_failure_message:
  assumes "uploadDependencies cmd world p = (Threw err, ev)"
  shows "filter is_failure_message ev =
     [stdout_write (if response_status err = Some 403
               then renderFailedUploadBecauseOf403 (message err)
               else renderFailedUpload (message err))]"
proof -
  obtain r ev' where rec: "retry_from (uploadAttempt cmd world p) onRetry_upload 1 5 = (r, ev')"
    by (cases "retry_from (uploadAttempt cmd world p) onRetry_upload 1 5")
  have "filter is_failure_message (snd (retry_from (uploadAttempt cmd world p) onRetry_upload 1 5)) = []"
    by (rule retry_from_filter_empty [OF uploadAttempt_no_failure_message onRetry_no_failure_message])
  then have "filter is_failure_message ev' = []" using rec by simp
  then show ?thesis using assms rec
    by (auto simp: uploadDependencies_def retry_def split: completion.splits)
qed


lemma retry_from_fst_cong:
  assumes "\<And>k. fst (fn k) = fst (fn' k)"
  shows "fst (retry_from fn onRetry n left) = fst (retry_from fn' onRetry' n left)"
proof (induction left arbitrary: n)
  case 0
  show ?case using assms [of n]
    by (cases "fn n"; cases "fn' n") (auto split: attempt.splits)
next
  case (Suc left)
  obtain a ev where 1: "fn n = (a, ev)" by (cases "fn n")
  obtain ev2 where 2: "fn' n = (a, ev2)" using assms [of n] 1 by (cases "fn' n") auto
  obtain r ev' where 3: "retry_from fn onRetry (Suc n) left = (r, ev')"
    by (cases "retry_from fn onRetry (Suc n) left")
  obtain ev2' where 4: "retry_from fn' onRetry' (Suc n) left = (r, ev2')"
    using Suc.IH [of "Suc n"] 3 by (cases "retry_from fn' onRetry' (Suc n) left") auto
  show ?case using 1 2 3 4 by (cases a) simp_all
qed

lemma uploadDependencies_fst_payload:
  "fst (uploadDependencies cmd world p) = fst (uploadDependencies cmd world p')"
  unfolding uploadDependencies_fst
  by (rule retry_from_fst_cong) (simp add: uploadAttempt_def split: option.splits)

lemma execute_invalid:
  "invalidInput cmd \<Longrightarrow> fst (UploadCommand_execute cmd world) = Some INVALID_INPUT_EXIT_CODE"
  by (auto simp: invalidInput_def UploadCommand_execute_def falsy_def split: option.splits)

lemma execute_missing_file:
  "\<not> invalidInput cmd \<Longrightarrow> \<not> fileExists world
   \<Longrightarrow> fst (UploadCommand_execute cmd world) = Some MISSING_FILE_EXIT_CODE"
  by (auto simp: invalidInput_def UploadCommand_execute_def falsy_def Let_def split: option.splits)

lemma execute_upload_error:
  assumes "\<not> invalidInput cmd" "fileExists world" "fst (uploadDependencies cmd world p) = Threw err"
  shows "fst (UploadCommand_execute cmd world) = Some UPLOAD_ERROR_EXIT_CODE"
proof -
  obtain src svc where s: "source cmd = Some src" "service cmd = Some svc" "src \<noteq> []" "svc \<noteq> []"
    "src \<in> set SUPPORTED_SOURCES" "\<not> falsy (appKey cmd)" "\<not> falsy (apiKey cmd)"
    using assms(1) by (auto simp: invalidInput_def falsy_def split: option.splits)
  define pl where "pl = \<lparr>payload_dependenciesFilePath = dependenciesFilePath cmd,
                                payload_service = svc,
                                payload_source = src,
                                payload_version = releaseVersion cmd\<rparr>"
  have "fst (uploadDependencies cmd world pl) = Threw err"
    using assms(3) uploadDependencies_fst_payload [of cmd world pl p] by simp
  then obtain ev where "uploadDependencies cmd world pl = (Threw err, ev)"
    by (cases "uploadDependencies cmd world pl") auto
  then show ?thesis using s assms(2)
    by (simp add: UploadCommand_execute_def Let_def pl_def)
qed

lemma uploadDependencies_dryRun:
  "dryRun cmd \<Longrightarrow> uploadDependencies cmd world p = (Returned (), [stdout_write renderDryRunUpload])"
  by (simp add: uploadDependencies_def retry_def uploadAttempt_def eval_nat_numeral)


subsection \<open>Exit codes\<close>

text \<open>
  Claim C8. The upload command has three failure codes, different from one
  another: \<open>INVALID_INPUT_EXIT_CODE\<close> is returned for invalid input (no or an
  unsupported source, no service, no application key or no API key),
  \<open>MISSING_FILE_EXIT_CODE\<close> when the input is valid and the dependencies file does
  not exist, and \<open>UPLOAD_ERROR_EXIT_CODE\<close> when the input is valid, the file exists
  and the upload fails. (How \<open>uploadDependencies\<close> ends does not depend on the
  payload, so the theorem names any.)
\<close>

theorem upload_exit_codes_distinct:
  "INVALID_INPUT_EXIT_CODE \<noteq> MISSING_FILE_EXIT_CODE
   \<and> INVALID_INPUT_EXIT_CODE \<noteq> UPLOAD_ERROR_EXIT_CODE
   \<and> MISSING_FILE_EXIT_CODE \<noteq> UPLOAD_ERROR_EXIT_CODE
   \<and> (invalidInput cmd \<longrightarrow>
        fst (UploadCommand_execute cmd world) = Some INVALID_INPUT_EXIT_CODE)
   \<and> (\<not> invalidInput cmd \<and> \<not> fileExists world \<longrightarrow>
        fst (UploadCommand_execute cmd world) = Some MISSING_FILE_EXIT_CODE)
   \<and> (\<not> invalidInput cmd \<and> fileExists world
        \<and> fst (uploadDependencies cmd world p) = Threw err \<longrightarrow>
        fst (UploadCommand_execute cmd world) = Some UPLOAD_ERROR_EXIT_CODE)"
  using execute_invalid [of cmd world] execute_missing_file [of cmd world]
    execute_upload_error [of cmd world p err]
  by (simp add: INVALID_INPUT_EXIT_CODE_def MISSING_FILE_EXIT_CODE_def UPLOAD_ERROR_EXIT_CODE_def)


text \<open>
  The three classes on example runs: no source, no file, and an upload the server
  refuses with status 500 every time.
\<close>

theorem upload_exit_codes_distinct_witness:
  "fst (UploadCommand_execute upload_cmd_no_source world_500) = Some 1
   \<and> fst (UploadCommand_execute upload_cmd world_no_file) = Some 2
   \<and> fst (UploadCommand_execute upload_cmd world_500) = Some 3"
proof -
  have 1: "invalidInput upload_cmd_no_source"
    by (simp add: invalidInput_def falsy_def upload_cmd_no_source_def upload_cmd_def)
  have 2: "\<not> invalidInput upload_cmd"
    by (simp add: invalidInput_def falsy_def upload_cmd_def SUPPORTED_SOURCES_def)
  have 3: "\<not> fileExists world_no_file" "fileExists world_500"
    by (simp_all add: world_no_file_def world_500_def)
  have 4: "fst (uploadDependencies upload_cmd world_500 upload_payload)
      = Threw (Error ''Internal Server Error'' (Some 500))"
    by (simp add: uploadDependencies_def retry_def uploadAttempt_def upload_cmd_def
        world_500_def errorCodesNoRetry_def onRetry_upload_def eval_nat_numeral)
  show ?thesis
    using upload_exit_codes_distinct [where cmd = upload_cmd_no_source and world = world_500]
      upload_exit_codes_distinct [where cmd = upload_cmd and world = world_no_file]
      upload_exit_codes_distinct [where cmd = upload_cmd and world = world_500
        and p = upload_payload and err = "Error ''Internal Server Error'' (Some 500)"]
      1 2 3 4
    by (simp add: INVALID_INPUT_EXIT_CODE_def MISSING_FILE_EXIT_CODE_def
        UPLOAD_ERROR_EXIT_CODE_def)
qed

subsection \<open>Dry run\<close>

text \<open>
  Claim C10. With the dry-run flag set, valid input and an existing file, the
  command never calls \<^verbatim>\<open>api.uploadDependencies\<close>: it writes the dry-run notice and
  the message of a successful command, and ends without a failure code.
\<close>

theorem dry_run_sends_no_upload:
  assumes "dryRun cmd" "\<not> invalidInput cmd" "fileExists world"
  shows "fst (UploadCommand_execute cmd world) = None
    \<and> upload_calls (snd (UploadCommand_execute cmd world)) = 0
    \<and> stdout_write renderDryRunUpload \<in> set (snd (UploadCommand_execute cmd world))
    \<and> stdout_write renderSuccessfulCommand \<in> set (snd (UploadCommand_execute cmd world))"
proof -
  obtain src svc where s: "source cmd = Some src" "service cmd = Some svc" "src \<noteq> []" "svc \<noteq> []"
    "src \<in> set SUPPORTED_SOURCES" "\<not> falsy (appKey cmd)" "\<not> falsy (apiKey cmd)"
    using assms(2) by (auto simp: invalidInput_def falsy_def split: option.splits)
  show ?thesis using s assms(1,3)
    by (simp add: UploadCommand_execute_def Let_def uploadDependencies_dryRun upload_calls_def
        flush_events_def split: option.splits)
qed


theorem dry_run_sends_no_upload_witness:
  "dryRun upload_cmd_dry \<and> \<not> invalidInput upload_cmd_dry \<and> fileExists world_500
   \<and> fst (UploadCommand_execute upload_cmd_dry world_500) = None
   \<and> upload_calls (snd (UploadCommand_execute upload_cmd_dry world_500)) = 0
   \<and> stdout_write renderSuccessfulCommand
       \<in> set (snd (UploadCommand_execute upload_cmd_dry world_500))"
proof -
  have 1: "dryRun upload_cmd_dry" by (simp add: upload_cmd_dry_def)
  have 2: "\<not> invalidInput upload_cmd_dry"
    by (simp add: invalidInput_def falsy_def upload_cmd_dry_def upload_cmd_def
        SUPPORTED_SOURCES_def)
  have 3: "fileExists world_500" by (simp add: world_500_def)
  show ?thesis using dry_run_sends_no_upload [OF 1 2 3] 1 2 3 by simp
qed

subsection \<open>Retries\<close>

text \<open>
  Claim C7, amended. An upload is attempted at most 6 times in all: the first
  attempt and at most 5 retries. An attempt that fails with a response status in
  \<open>errorCodesNoRetry\<close> (400, 403, 413) is never followed by another attempt; when
  the attempts before it were all answered by a retry, it ends the loop with its
  own error, after exactly that many attempts. And a failure whose error has
  status 403 is reported with the message for a refused authorization
  (\<open>renderFailedUploadBecauseOf403\<close>), which is then the only failure message written.
\<close>

theorem upload_retry_policy:
  "upload_calls (snd (uploadDependencies cmd world p)) \<le> 6
   \<and> (\<not> dryRun cmd \<and> 1 \<le> m \<and> uploadResponse world m = Some err
        \<and> response_status err = Some status \<and> status \<in> set errorCodesNoRetry \<longrightarrow>
        upload_calls (snd (uploadDependencies cmd world p)) \<le> m)
   \<and> (\<not> dryRun cmd \<and> 1 \<le> m \<and> m \<le> 6
        \<and> (\<forall>k. 1 \<le> k \<and> k < m \<longrightarrow> retryable (uploadResponse world k))
        \<and> uploadResponse world m = Some err
        \<and> response_status err = Some status \<and> status \<in> set errorCodesNoRetry \<longrightarrow>
        fst (uploadDependencies cmd world p) = Threw err
        \<and> upload_calls (snd (uploadDependencies cmd world p)) = m)
   \<and> (fst (uploadDependencies cmd world p) = Threw err'
        \<and> response_status err' = Some 403 \<longrightarrow>
        filter is_failure_message (snd (uploadDependencies cmd world p))
        = [stdout_write (renderFailedUploadBecauseOf403 (message err'))])"
proof (intro conjI impI)
  show "upload_calls (snd (uploadDependencies cmd world p)) \<le> 6"
    by (rule uploadDependencies_calls_le)
next
  assume "\<not> dryRun cmd \<and> 1 \<le> m \<and> uploadResponse world m = Some err
        \<and> response_status err = Some status \<and> status \<in> set errorCodesNoRetry"
  then show "upload_calls (snd (uploadDependencies cmd world p)) \<le> m"
    using uploadDependencies_stops_le [of cmd m world err status p] by simp
next
  assume a: "\<not> dryRun cmd \<and> 1 \<le> m \<and> m \<le> 6
        \<and> (\<forall>k. 1 \<le> k \<and> k < m \<longrightarrow> retryable (uploadResponse world k))
        \<and> uploadResponse world m = Some err
        \<and> response_status err = Some status \<and> status \<in> set errorCodesNoRetry"
  then have "fst (uploadDependencies cmd world p) = Threw err
        \<and> upload_calls (snd (uploadDependencies cmd world p)) = m"
    by (intro uploadDependencies_bails [of cmd m world err status p]) simp_all
  then show "fst (uploadDependencies cmd world p) = Threw err"
    and "upload_calls (snd (uploadDependencies cmd world p)) = m" by simp_all
next
  assume a: "fst (uploadDependencies cmd world p) = Threw err'
        \<and> response_status err' = Some 403"
  then have "uploadDependencies cmd world p = (Threw err', snd (uploadDependencies cmd world p))"
    by (cases "uploadDependencies cmd world p") simp
  from uploadDependencies_failure_message [OF this] a
  show "filter is_failure_message (snd (uploadDependencies cmd world p))
        = [stdout_write (renderFailedUploadBecauseOf403 (message err'))]" by simp
qed


text \<open>
  A server that answers 500, then 403: two attempts, the error of the second is
  the outcome, and the message is the one for status 403.
\<close>

theorem upload_retry_policy_witness:
  "fst (uploadDependencies upload_cmd world_403 upload_payload) = Threw (Error ''Forbidden'' (Some 403))
   \<and> upload_calls (snd (uploadDependencies upload_cmd world_403 upload_payload)) = 2
   \<and> filter is_failure_message (snd (uploadDependencies upload_cmd world_403 upload_payload))
     = [stdout_write (renderFailedUploadBecauseOf403 ''Forbidden'')]"
proof -
  have 1: "\<not> dryRun upload_cmd" by (simp add: upload_cmd_def)
  have 2: "\<forall>k. 1 \<le> k \<and> k < 2 \<longrightarrow> retryable (uploadResponse world_403 k)"
    by (auto simp: world_403_def retryable_def errorCodesNoRetry_def)
  have 3: "uploadResponse world_403 2 = Some (Error ''Forbidden'' (Some 403))"
    by (simp add: world_403_def)
  have 4: "(403::int) \<in> set errorCodesNoRetry" by (simp add: errorCodesNoRetry_def)
  show ?thesis
    using upload_retry_policy [of upload_cmd world_403 upload_payload 2 "Error ''Forbidden'' (Some 403)" 403
        "Error ''Forbidden'' (Some 403)"] 1 2 3 4
    by simp
qed


text \<open>
  The claim as stated (at most 5 attempts in all) fails for a server that answers
  every upload with status 500: the upload is attempted 6 times.
\<close>

theorem upload_attempts_counterexample:
  "upload_calls (snd (uploadDependencies upload_cmd world_500 upload_payload)) = 6
   \<and> \<not> upload_calls (snd (uploadDependencies upload_cmd world_500 upload_payload)) \<le> 5"
  by (simp add: uploadDependencies_def retry_def uploadAttempt_def upload_cmd_def world_500_def
      errorCodesNoRetry_def upload_calls_def onRetry_upload_def eval_nat_numeral)



section \<open>Properties of the run-tests command\<close>

subsection \<open>Sorting and counting\<close>

lemma insert_by_filter_length:
  "length (filter P (insert_by cmp x ys)) = length (filter P (x # ys))"
  by (induction ys) auto

lemma sort_by_filter_length: "length (filter P (sort_by cmp xs)) = length (filter P xs)"
  by (induction xs) (simp_all add: sort_by_def insert_by_filter_length)

lemma set_insert_by: "set (insert_by cmp x ys) = insert x (set ys)"
  by (induction ys) auto

lemma set_sort_by: "set (sort_by cmp xs) = set xs"
  by (induction xs) (simp_all add: sort_by_def set_insert_by)

lemma fold_countTest:
  "fold (countTest hts res) ts (sm, ok) =
     (sm\<lparr>summary_passed := summary_passed sm + length (filter (\<lambda>t. hts (res (public_id t))) ts),
         summary_failed := summary_failed sm + length (filter (\<lambda>t. \<not> hts (res (public_id t))) ts)\<rparr>,
      ok \<and> \<not> (\<exists>t \<in> set ts. blockingFailure hts res t))"
proof (induction ts arbitrary: sm ok)
  case Nil
  show ?case by simp
next
  case (Cons t ts)
  have step: "countTest hts res t (sm, ok) =
      (if hts (res (public_id t))
       then (sm\<lparr>summary_passed := summary_passed sm + 1\<rparr>, ok)
       else (sm\<lparr>summary_failed := summary_failed sm + 1\<rparr>, ok \<and> isNonBlocking t))"
    by (simp add: countTest_def)
  show ?case
    by (cases "hts (res (public_id t))")
       (auto simp: step Cons.IH blockingFailure_def)
qed


subsection \<open>The stages of the command\<close>

lemma getApiHelper_keysPresent: "keysPresent cmd \<Longrightarrow> getApiHelper cmd = (Returned (), [])"
  by (simp add: getApiHelper_def keysPresent_def Let_def)

lemma execute_selected:
  assumes "keysPresent cmd" "selectTests cmd world = Returned selection" "selection \<noteq> []"
    "getTestsToTrigger_result world = Returned selected"
  shows "RunTestCommand_execute hts cmd world = runSelected hts cmd world selected"
  using assms
  by (simp add: RunTestCommand_execute_def getApiHelper_keysPresent add_events_def)

lemma runSelected_ready:
  assumes "tunnelReady cmd world"
  shows "\<exists>earlier overridden opened.
           runSelected hts cmd world selected =
             add_events earlier
               (triggerAndReport hts cmd world (tests selected) overridden (summary selected) opened)
           \<and> runTests_calls earlier = 0"
proof (cases "wantsTunnel cmd")
  case False
  then have "runSelected hts cmd world selected =
      add_events [] (triggerAndReport hts cmd world (tests selected)
        (overriddenTestsToTrigger selected) (summary selected) False)"
    by (simp add: runSelected_def add_events_def)
  then show ?thesis by (fastforce simp: runTests_calls_def)
next
  case True
  then obtain url info where "getPresignedURL_result world = Returned url"
    "tunnel_start_result world = Returned info"
    using assms by (auto simp: tunnelReady_def split: completion.splits)
  then have "runSelected hts cmd world selected =
      add_events [reporter_log tunnelNotice, api_getPresignedURL (map public_id (tests selected)),
                       tunnel_start] (triggerAndReport hts cmd world (tests selected)
                         (map (\<lambda>testToTrigger. testToTrigger\<lparr>tunnel := Some info\<rparr>)
                            (overriddenTestsToTrigger selected))
                         (summary selected) True)"
    using True by (simp add: runSelected_def)
  moreover have "runTests_calls [reporter_log tunnelNotice, api_getPresignedURL (map public_id (tests selected)),
                       tunnel_start] = 0" by (simp add: runTests_calls_def)
  ultimately show ?thesis by blast
qed

lemma fst_add_events: "fst (add_events earlier r) = fst r"
  by (simp add: add_events_def)

lemma snd_add_events: "snd (add_events earlier r) = earlier @ snd r"
  by (simp add: add_events_def)

lemma triggerAndReport_throws:
  "runTests_result world = Threw e \<Longrightarrow>
   fst (triggerAndReport hts cmd world ts overridden sm opened) = Threw e"
  by (simp add: triggerAndReport_def)

lemma triggerAndReport_no_results:
  "runTests_result world = Returned triggers \<Longrightarrow> ts \<noteq> [] \<Longrightarrow> results triggers = None \<Longrightarrow>
   fst (triggerAndReport hts cmd world ts overridden sm opened)
   = Threw (Error ''No result to poll.'' None)"
  by (simp add: triggerAndReport_def)

lemma triggerAndReport_poll_throws:
  "runTests_result world = Returned triggers \<Longrightarrow> ts \<noteq> [] \<Longrightarrow> results triggers = Some trs \<Longrightarrow>
   waitForResults_result world = Threw e \<Longrightarrow>
   fst (triggerAndReport hts cmd world ts overridden sm opened) = Returned 1"
  by (simp add: triggerAndReport_def pollAndReport_def fst_add_events)

lemma triggerAndReport_no_locations:
  "runTests_result world = Returned triggers \<Longrightarrow> ts \<noteq> [] \<Longrightarrow> results triggers = Some trs \<Longrightarrow>
   waitForResults_result world = Returned res \<Longrightarrow> locations triggers = None \<Longrightarrow>
   fst (triggerAndReport hts cmd world ts overridden sm opened) = Returned 1"
  by (simp add: triggerAndReport_def pollAndReport_def fst_add_events Let_def)

lemma triggerAndReport_evaluated:
  assumes "runTests_result world = Returned triggers" "ts \<noteq> []" "results triggers = Some trs"
    "waitForResults_result world = Returned res" "locations triggers = Some locs"
  shows "fst (triggerAndReport hts cmd world ts overridden sm opened)
         = Returned (if (\<exists>t \<in> set ts. blockingFailure hts res t) then 1 else 0)"
    and "reporter_runEnd
           (sm\<lparr>summary_passed :=
                 summary_passed sm + length (filter (\<lambda>t. hts (res (public_id t))) ts),
               summary_failed :=
                 summary_failed sm + length (filter (\<lambda>t. \<not> hts (res (public_id t))) ts)\<rparr>)
         \<in> set (snd (triggerAndReport hts cmd world ts overridden sm opened))"
  using assms
  by (simp_all add: triggerAndReport_def pollAndReport_def fst_add_events snd_add_events Let_def
      fold_countTest sort_by_filter_length set_sort_by)




subsection \<open>Facts about the example runs\<close>

lemma succeeded_ABC:
  "\<not> succeeded (results_ABC (public_id testA))" "succeeded (results_ABC (public_id testB))"
  "\<not> succeeded (results_ABC (public_id testC))"
  by (simp_all add: succeeded_def results_ABC_def testA_def testB_def testC_def
      hasTestSucceeded_def failedResult_def passedResult_def)

lemma isNonBlocking_ABC:
  "\<not> isNonBlocking testA" "\<not> isNonBlocking testB" "isNonBlocking testC"
  by (simp_all add: isNonBlocking_def testA_def testB_def testC_def)

lemma run_cmd_keys: "keysPresent run_cmd" "keysPresent run_cmd_tunnel" "keysPresent run_cmd_nothing"
  by (simp_all add: keysPresent_def or_else_def falsy_def run_cmd_def run_cmd_tunnel_def
      run_cmd_nothing_def)

lemma run_cmd_selection:
  "selectTests run_cmd world = Returned cli_selection"
  "selectTests run_cmd_tunnel world = Returned cli_selection"
  "cli_selection \<noteq> []"
  by (simp_all add: selectTests_def run_cmd_def run_cmd_tunnel_def cli_selection_def)

lemma run_cmd_wantsTunnel: "wantsTunnel run_cmd_tunnel" "\<not> wantsTunnel run_cmd"
  by (simp_all add: wantsTunnel_def run_cmd_def run_cmd_tunnel_def)

lemma blockingFailure_ABC:
  "blockingFailure succeeded results_ABC testA" "\<not> blockingFailure succeeded results_ABC testB"
  "\<not> blockingFailure succeeded results_ABC testC"
  using succeeded_ABC isNonBlocking_ABC by (simp_all add: blockingFailure_def)

lemmas execute_defs =
  RunTestCommand_execute_def getApiHelper_def selectTests_def getTestsList_def runSelected_def
  triggerAndReport_def pollAndReport_def add_events_def wantsTunnel_def or_else_def falsy_def
  Let_def


subsection \<open>Order of the tests\<close>

text \<open>
  Claim C2. The comparator that sorts the tests for display returns - 1, 0 or 1.
  It returns 0 for two tests with the same success and the same classification;
  with the same success, a non-blocking test goes before one that is not; with
  different success, the test that succeeded goes first. So three tests A (fails,
  blocking), B (passes), C (fails, non-blocking) in this order are sorted to B, C, A.
  This holds whatever \<^verbatim>\<open>hasTestSucceeded\<close> computes.
\<close>

theorem sortTestsByOutcome_order:
  "sortTestsByOutcome hts res t1 t2 \<in> {- 1, 0, 1}
   \<and> (hts (res (public_id t1)) = hts (res (public_id t2))
        \<and> isNonBlocking t1 = isNonBlocking t2 \<longrightarrow>
        sortTestsByOutcome hts res t1 t2 = 0)
   \<and> (hts (res (public_id t1)) = hts (res (public_id t2))
        \<and> isNonBlocking t1 \<and> \<not> isNonBlocking t2 \<longrightarrow>
        sortTestsByOutcome hts res t1 t2 = - 1 \<and> sortTestsByOutcome hts res t2 t1 = 1)
   \<and> (hts (res (public_id t1)) \<and> \<not> hts (res (public_id t2)) \<longrightarrow>
        sortTestsByOutcome hts res t1 t2 = - 1 \<and> sortTestsByOutcome hts res t2 t1 = 1)
   \<and> (\<not> hts (res (public_id a)) \<and> \<not> isNonBlocking a
        \<and> hts (res (public_id b))
        \<and> \<not> hts (res (public_id c)) \<and> isNonBlocking c \<longrightarrow>
        sort_by (sortTestsByOutcome hts res) [a, b, c] = [b, c, a])"
  by (auto simp: sortTestsByOutcome_def sort_by_def Let_def)


text \<open>The example of the specification, with the outcome function of the specification.\<close>

theorem sortTestsByOutcome_order_witness:
  "sort_by (sortTestsByOutcome succeeded results_ABC) [testA, testB, testC]
     = [testB, testC, testA]
   \<and> sortTestsByOutcome succeeded results_ABC testC testA = - 1
   \<and> sortTestsByOutcome succeeded results_ABC testA testC = 1
   \<and> sortTestsByOutcome succeeded results_ABC testB testC = - 1
   \<and> sortTestsByOutcome succeeded results_ABC testA testA = 0"
  using sortTestsByOutcome_order [of succeeded results_ABC testC testA testA testB testC]
    sortTestsByOutcome_order [of succeeded results_ABC testB testC]
    sortTestsByOutcome_order [of succeeded results_ABC testA testA]
    succeeded_ABC isNonBlocking_ABC
  by simp


subsection \<open>Exit status\<close>

text \<open>
  Claim C4. In a run with its keys and at least one selected test, for which
  \<^verbatim>\<open>getTestsToTrigger\<close> resolved, the exit status is 1 when the tunnel is asked
  for and fails to start (the command returns 1); when \<^verbatim>\<open>runTests\<close> throws or the
  trigger has no results to poll (the command throws, and the error sets the
  failing exit code); and when \<^verbatim>\<open>waitForResults\<close> throws or the trigger has no
  locations to read (the command catches the error and returns 1). Otherwise the
  tests are evaluated: the command returns 0, and the exit status is 0, if and
  only if no blocking test failed, a test being blocking unless its
  \<^verbatim>\<open>options.ci.executionRule\<close> is NON_BLOCKING; and the summary it reports counts
  every failed test, blocking or not. This holds whatever \<^verbatim>\<open>hasTestSucceeded\<close>
  computes.
\<close>

theorem run_exit_status:
  assumes "keysPresent cmd" "selectTests cmd world = Returned selection" "selection \<noteq> []"
    "getTestsToTrigger_result world = Returned selected"
  shows
    "(wantsTunnel cmd \<and> getPresignedURL_result world = Returned url
        \<and> tunnel_start_result world = Threw e \<longrightarrow>
        fst (RunTestCommand_execute hts cmd world) = Returned 1
        \<and> exitStatus (fst (RunTestCommand_execute hts cmd world)) = 1)
     \<and> (tunnelReady cmd world \<and> runTests_result world = Threw e \<longrightarrow>
          fst (RunTestCommand_execute hts cmd world) = Threw e
          \<and> exitStatus (fst (RunTestCommand_execute hts cmd world)) = 1)
     \<and> (tunnelReady cmd world \<and> runTests_result world = Returned triggers
          \<and> tests selected \<noteq> [] \<and> results triggers = None \<longrightarrow>
          fst (RunTestCommand_execute hts cmd world) = Threw (Error ''No result to poll.'' None)
          \<and> exitStatus (fst (RunTestCommand_execute hts cmd world)) = 1)
     \<and> (tunnelReady cmd world \<and> runTests_result world = Returned triggers
          \<and> tests selected \<noteq> [] \<and> results triggers = Some trs
          \<and> waitForResults_result world = Threw e \<longrightarrow>
          fst (RunTestCommand_execute hts cmd world) = Returned 1
          \<and> exitStatus (fst (RunTestCommand_execute hts cmd world)) = 1)
     \<and> (tunnelReady cmd world \<and> runTests_result world = Returned triggers
          \<and> tests selected \<noteq> [] \<and> results triggers = Some trs
          \<and> waitForResults_result world = Returned res \<and> locations triggers = None \<longrightarrow>
          fst (RunTestCommand_execute hts cmd world) = Returned 1
          \<and> exitStatus (fst (RunTestCommand_execute hts cmd world)) = 1)
     \<and> (tunnelReady cmd world \<and> runTests_result world = Returned triggers
          \<and> tests selected \<noteq> [] \<and> results triggers = Some trs
          \<and> waitForResults_result world = Returned res
          \<and> locations triggers = Some locationList \<longrightarrow>
          fst (RunTestCommand_execute hts cmd world)
            = Returned (if (\<exists>t \<in> set (tests selected). blockingFailure hts res t) then 1 else 0)
          \<and> (exitStatus (fst (RunTestCommand_execute hts cmd world)) = 0
               \<longleftrightarrow> \<not> (\<exists>t \<in> set (tests selected). blockingFailure hts res t))
          \<and> (exitStatus (fst (RunTestCommand_execute hts cmd world)) = 1
               \<longleftrightarrow> (\<exists>t \<in> set (tests selected). blockingFailure hts res t))
          \<and> reporter_runEnd
               ((summary selected)
                  \<lparr>summary_passed :=
                     summary_passed (summary selected)
                     + length (filter (\<lambda>t. hts (res (public_id t))) (tests selected)),
                   summary_failed :=
                     summary_failed (summary selected)
                     + length (filter (\<lambda>t. \<not> hts (res (public_id t))) (tests selected))\<rparr>)
             \<in> set (snd (RunTestCommand_execute hts cmd world)))"
proof -
  have ex: "RunTestCommand_execute hts cmd world = runSelected hts cmd world selected"
    by (rule execute_selected [OF assms])
  have tunnel_fails: "fst (runSelected hts cmd world selected) = Returned 1"
    if "wantsTunnel cmd" "getPresignedURL_result world = Returned url"
      "tunnel_start_result world = Threw e"
    using that by (simp add: runSelected_def)
  have ready: "\<exists>earlier overridden opened.
      runSelected hts cmd world selected =
        add_events earlier
          (triggerAndReport hts cmd world (tests selected) overridden (summary selected) opened)
      \<and> runTests_calls earlier = 0"
    if "tunnelReady cmd world"
    using that by (rule runSelected_ready)
  have c1: "fst (RunTestCommand_execute hts cmd world) = Returned 1"
    if "wantsTunnel cmd \<and> getPresignedURL_result world = Returned url
        \<and> tunnel_start_result world = Threw e"
    using that tunnel_fails ex by simp
  have c2: "fst (RunTestCommand_execute hts cmd world) = Threw e"
    if "tunnelReady cmd world \<and> runTests_result world = Threw e"
    using that ready ex by (auto simp: fst_add_events triggerAndReport_throws)
  have c3: "fst (RunTestCommand_execute hts cmd world) = Threw (Error ''No result to poll.'' None)"
    if "tunnelReady cmd world \<and> runTests_result world = Returned triggers
          \<and> tests selected \<noteq> [] \<and> results triggers = None"
    using that ready ex by (auto simp: fst_add_events triggerAndReport_no_results)
  have c4: "fst (RunTestCommand_execute hts cmd world) = Returned 1"
    if "tunnelReady cmd world \<and> runTests_result world = Returned triggers
          \<and> tests selected \<noteq> [] \<and> results triggers = Some trs
          \<and> waitForResults_result world = Threw e"
    using that ready ex by (auto simp: fst_add_events triggerAndReport_poll_throws)
  have c5: "fst (RunTestCommand_execute hts cmd world) = Returned 1"
    if "tunnelReady cmd world \<and> runTests_result world = Returned triggers
          \<and> tests selected \<noteq> [] \<and> results triggers = Some trs
          \<and> waitForResults_result world = Returned res \<and> locations triggers = None"
    using that ready ex by (auto simp: fst_add_events triggerAndReport_no_locations)
  have c6: "fst (RunTestCommand_execute hts cmd world)
            = Returned (if (\<exists>t \<in> set (tests selected). blockingFailure hts res t) then 1 else 0)"
    and c7: "reporter_runEnd
               ((summary selected)
                  \<lparr>summary_passed :=
                     summary_passed (summary selected)
                     + length (filter (\<lambda>t. hts (res (public_id t))) (tests selected)),
                   summary_failed :=
                     summary_failed (summary selected)
                     + length (filter (\<lambda>t. \<not> hts (res (public_id t))) (tests selected))\<rparr>)
             \<in> set (snd (RunTestCommand_execute hts cmd world))"
    if a: "tunnelReady cmd world \<and> runTests_result world = Returned triggers
          \<and> tests selected \<noteq> [] \<and> results triggers = Some trs
          \<and> waitForResults_result world = Returned res
          \<and> locations triggers = Some locationList"
  proof -
    obtain earlier overridden opened where r:
      "runSelected hts cmd world selected =
        add_events earlier
          (triggerAndReport hts cmd world (tests selected) overridden (summary selected) opened)"
      using ready a by blast
    from a have b: "runTests_result world = Returned triggers" "tests selected \<noteq> []"
      "results triggers = Some trs" "waitForResults_result world = Returned res"
      "locations triggers = Some locationList" by simp_all
    show "fst (RunTestCommand_execute hts cmd world)
            = Returned (if (\<exists>t \<in> set (tests selected). blockingFailure hts res t) then 1 else 0)"
      using triggerAndReport_evaluated(1) [OF b] by (simp add: ex r fst_add_events)
    show "reporter_runEnd
               ((summary selected)
                  \<lparr>summary_passed :=
                     summary_passed (summary selected)
                     + length (filter (\<lambda>t. hts (res (public_id t))) (tests selected)),
                   summary_failed :=
                     summary_failed (summary selected)
                     + length (filter (\<lambda>t. \<not> hts (res (public_id t))) (tests selected))\<rparr>)
             \<in> set (snd (RunTestCommand_execute hts cmd world))"
      using triggerAndReport_evaluated(2) [OF b]
      by (simp add: ex r snd_add_events)
  qed
  show ?thesis
    using c1 c2 c3 c4 c5 c6 c7 by (simp add: exitStatus_def)
qed

text \<open>
  B passes and C fails without blocking: status 0, one test passed and one failed.
  With A as well: status 1. The other runs fail at the tunnel, while triggering,
  while polling, and at the locations.
\<close>

theorem run_exit_status_witness:
  "exitStatus (fst (RunTestCommand_execute succeeded run_cmd_tunnel world_BC)) = 0
   \<and> reporter_runEnd \<lparr>summary_passed = 1, summary_failed = 1, summary_skipped = 0\<rparr>
       \<in> set (snd (RunTestCommand_execute succeeded run_cmd_tunnel world_BC))
   \<and> exitStatus (fst (RunTestCommand_execute succeeded run_cmd_tunnel world_ABC)) = 1
   \<and> exitStatus (fst (RunTestCommand_execute succeeded run_cmd_tunnel world_tunnel_fails)) = 1
   \<and> exitStatus (fst (RunTestCommand_execute succeeded run_cmd_tunnel world_poll_fails)) = 1
   \<and> exitStatus (fst (RunTestCommand_execute succeeded run_cmd_tunnel world_no_locations)) = 1
   \<and> fst (RunTestCommand_execute succeeded run_cmd_tunnel world_trigger_fails)
       = Threw (Error ''Bad Gateway'' (Some 502))
   \<and> exitStatus (fst (RunTestCommand_execute succeeded run_cmd_tunnel world_trigger_fails)) = 1
   \<and> fst (RunTestCommand_execute succeeded run_cmd_tunnel world_no_results)
       = Threw (Error ''No result to poll.'' None)
   \<and> exitStatus (fst (RunTestCommand_execute succeeded run_cmd_tunnel world_no_results)) = 1"
proof -
  note k = run_cmd_keys(2) and s = run_cmd_selection(2) and n = run_cmd_selection(3)
  have ready: "tunnelReady run_cmd_tunnel world_BC" "tunnelReady run_cmd_tunnel world_ABC"
    "tunnelReady run_cmd_tunnel world_poll_fails" "tunnelReady run_cmd_tunnel world_trigger_fails"
    "tunnelReady run_cmd_tunnel world_no_results" "tunnelReady run_cmd_tunnel world_no_locations"
    using run_cmd_wantsTunnel(1)
    by (simp_all add: tunnelReady_def world_BC_def world_ABC_def world_poll_fails_def
        world_trigger_fails_def world_no_results_def world_no_locations_def)
  have 1: "exitStatus (fst (RunTestCommand_execute succeeded run_cmd_tunnel world_BC)) = 0
    \<and> reporter_runEnd \<lparr>summary_passed = 1, summary_failed = 1, summary_skipped = 0\<rparr>
       \<in> set (snd (RunTestCommand_execute succeeded run_cmd_tunnel world_BC))"
    using run_exit_status [where hts = succeeded and world = world_BC
        and selected = "\<lparr>tests = [testB, testC], overriddenTestsToTrigger = tl payloads_ABC,
                        summary = noSummary\<rparr>"
        and triggers = "\<lparr>locations = Some locations_ABC, results = Some triggers_ABC\<rparr>"
        and trs = triggers_ABC and res = results_ABC and locationList = locations_ABC,
        OF k s n]
      ready(1) blockingFailure_ABC succeeded_ABC
    by (simp add: exitStatus_def world_BC_def world_ABC_def noSummary_def)
  have 2: "exitStatus (fst (RunTestCommand_execute succeeded run_cmd_tunnel world_ABC)) = 1"
    using run_exit_status [where hts = succeeded and world = world_ABC
        and selected = "\<lparr>tests = [testA, testB, testC], overriddenTestsToTrigger = payloads_ABC,
                        summary = noSummary\<rparr>"
        and triggers = "\<lparr>locations = Some locations_ABC, results = Some triggers_ABC\<rparr>"
        and trs = triggers_ABC and res = results_ABC and locationList = locations_ABC,
        OF k s n]
      ready(2) blockingFailure_ABC
    by (simp add: exitStatus_def world_ABC_def)
  have 3: "exitStatus (fst (RunTestCommand_execute succeeded run_cmd_tunnel world_tunnel_fails))
      = 1"
    using run_exit_status [where hts = succeeded and world = world_tunnel_fails
        and selected = "\<lparr>tests = [testA, testB, testC], overriddenTestsToTrigger = payloads_ABC,
                        summary = noSummary\<rparr>"
        and url = "''wss://tunnel.example.org/connect''" and e = "Error ''ECONNREFUSED'' None",
        OF k s n]
      run_cmd_wantsTunnel(1)
    by (simp add: exitStatus_def world_tunnel_fails_def world_ABC_def)
  have 4: "exitStatus (fst (RunTestCommand_execute succeeded run_cmd_tunnel world_poll_fails)) = 1"
    using run_exit_status [where hts = succeeded and world = world_poll_fails
        and selected = "\<lparr>tests = [testA, testB, testC], overriddenTestsToTrigger = payloads_ABC,
                        summary = noSummary\<rparr>"
        and triggers = "\<lparr>locations = Some locations_ABC, results = Some triggers_ABC\<rparr>"
        and trs = triggers_ABC and e = "Error ''socket hang up'' None", OF k s n]
      ready(3)
    by (simp add: exitStatus_def world_poll_fails_def world_ABC_def)
  have 5: "fst (RunTestCommand_execute succeeded run_cmd_tunnel world_trigger_fails)
       = Threw (Error ''Bad Gateway'' (Some 502))
     \<and> exitStatus (fst (RunTestCommand_execute succeeded run_cmd_tunnel world_trigger_fails)) = 1"
    using run_exit_status [where hts = succeeded and world = world_trigger_fails
        and selected = "\<lparr>tests = [testA, testB, testC], overriddenTestsToTrigger = payloads_ABC,
                        summary = noSummary\<rparr>"
        and e = "Error ''Bad Gateway'' (Some 502)", OF k s n]
      ready(4)
    by (simp add: exitStatus_def world_trigger_fails_def world_ABC_def)
  have 6: "fst (RunTestCommand_execute succeeded run_cmd_tunnel world_no_results)
       = Threw (Error ''No result to poll.'' None)
     \<and> exitStatus (fst (RunTestCommand_execute succeeded run_cmd_tunnel world_no_results)) = 1"
    using run_exit_status [where hts = succeeded and world = world_no_results
        and selected = "\<lparr>tests = [testA, testB, testC], overriddenTestsToTrigger = payloads_ABC,
                        summary = noSummary\<rparr>"
        and triggers = "\<lparr>locations = Some locations_ABC, results = None\<rparr>", OF k s n]
      ready(5)
    by (simp add: exitStatus_def world_no_results_def world_ABC_def)
  have 7: "exitStatus (fst (RunTestCommand_execute succeeded run_cmd_tunnel world_no_locations))
      = 1"
    using run_exit_status [where hts = succeeded and world = world_no_locations
        and selected = "\<lparr>tests = [testB, testC], overriddenTestsToTrigger = tl payloads_ABC,
                        summary = noSummary\<rparr>"
        and triggers = "\<lparr>locations = None, results = Some triggers_ABC\<rparr>"
        and trs = triggers_ABC and res = results_ABC, OF k s n]
      ready(6)
    by (simp add: exitStatus_def world_no_locations_def world_BC_def world_ABC_def)
  show ?thesis using 1 2 3 4 5 6 7 by (simp add: exitStatus_def)
qed

subsection \<open>Stopping the tunnel\<close>

text \<open>
  Claim C1 fails on these runs, each with the tunnel asked for and started once:
  the trigger has no results, \<^verbatim>\<open>runTests\<close> throws, the tunnel fails to start, and
  every test is skipped. In each the command ends without a call of \<^verbatim>\<open>stop\<close>. When
  \<^verbatim>\<open>waitForResults\<close> throws, the tunnel is stopped once, as claimed.
\<close>

theorem tunnel_left_open:
  "fst (RunTestCommand_execute succeeded run_cmd_tunnel world_no_results)
     = Threw (Error ''No result to poll.'' None)
   \<and> tunnel_starts (snd (RunTestCommand_execute succeeded run_cmd_tunnel world_no_results)) = 1
   \<and> tunnel_stops (snd (RunTestCommand_execute succeeded run_cmd_tunnel world_no_results)) = 0
   \<and> fst (RunTestCommand_execute succeeded run_cmd_tunnel world_trigger_fails)
     = Threw (Error ''Bad Gateway'' (Some 502))
   \<and> tunnel_starts (snd (RunTestCommand_execute succeeded run_cmd_tunnel world_trigger_fails)) = 1
   \<and> tunnel_stops (snd (RunTestCommand_execute succeeded run_cmd_tunnel world_trigger_fails)) = 0
   \<and> fst (RunTestCommand_execute succeeded run_cmd_tunnel world_tunnel_fails) = Returned 1
   \<and> tunnel_starts (snd (RunTestCommand_execute succeeded run_cmd_tunnel world_tunnel_fails)) = 1
   \<and> tunnel_stops (snd (RunTestCommand_execute succeeded run_cmd_tunnel world_tunnel_fails)) = 0
   \<and> fst (RunTestCommand_execute succeeded run_cmd_tunnel world_all_skipped) = Returned 0
   \<and> tunnel_starts (snd (RunTestCommand_execute succeeded run_cmd_tunnel world_all_skipped)) = 1
   \<and> tunnel_stops (snd (RunTestCommand_execute succeeded run_cmd_tunnel world_all_skipped)) = 0
   \<and> fst (RunTestCommand_execute succeeded run_cmd_tunnel world_poll_fails) = Returned 1
   \<and> tunnel_starts (snd (RunTestCommand_execute succeeded run_cmd_tunnel world_poll_fails)) = 1
   \<and> tunnel_stops (snd (RunTestCommand_execute succeeded run_cmd_tunnel world_poll_fails)) = 1"
  by (simp add: execute_defs tunnel_starts_def tunnel_stops_def run_cmd_def run_cmd_tunnel_def
      world_no_results_def world_trigger_fails_def world_tunnel_fails_def world_all_skipped_def
      world_poll_fails_def world_ABC_def)


subsection \<open>Nothing to run\<close>







subsection \<open>Configuration overrides\<close>

text \<open>
  Claim C3, amended. Without a search query, \<^verbatim>\<open>getTestsList\<close> returns the tests of
  the discovered suites in order. For every test of a suite, the effective
  configuration has, for every key, the value of the test's own configuration when
  it has that key, and the global value otherwise. The value is taken whole: a
  nested map of the test replaces the global nested map, their keys are not merged.
\<close>

theorem suite_test_config_override:
  "(falsy (testSearchQuery cmd) \<longrightarrow>
      getTestsList cmd world
        = Returned (concat (map (suiteTests (config_global cmd)) (discoveredSuites cmd world))))
   \<and> (suite_tests suite = Some ts \<longrightarrow>
        length (suiteTests global suite) = length ts
        \<and> (\<forall>i < length ts.
              trigger_suite (suiteTests global suite ! i) = suite_name suite
              \<and> trigger_id (suiteTests global suite ! i) = test_id (ts ! i)
              \<and> (\<forall>key.
                    trigger_config (suiteTests global suite ! i) key
                    = (case (case test_config (ts ! i) of None \<Rightarrow> None | Some c \<Rightarrow> c key) of
                         Some v \<Rightarrow> Some v
                       | None \<Rightarrow> global key))))"
  by (auto simp: getTestsList_def discoveredSuites_def suiteTests_def spread_def map_add_def
      Let_def split: option.splits)


text \<open>
  Global headers a, headers b for the test: the effective headers are those of the
  test; a start URL only the global configuration has is kept.
\<close>

theorem suite_test_config_override_witness:
  "getTestsList run_cmd_suites world_suites = Returned (suiteTests global_headers suite_shop)
   \<and> length (suiteTests global_headers suite_shop) = 1
   \<and> trigger_id (suiteTests global_headers suite_shop ! 0) = ''aaa-aaa-aaa''
   \<and> trigger_config (suiteTests global_headers suite_shop ! 0) ''headers''
       = Some (JObj [(''b'', JNum 2)])
   \<and> trigger_config (suiteTests (global_headers(''startUrl'' \<mapsto> JStr ''https://example.org''))
        suite_shop ! 0) ''startUrl''
       = Some (JStr ''https://example.org'')"
proof -
  have 1: "falsy (testSearchQuery run_cmd_suites)"
    by (simp add: falsy_def run_cmd_suites_def run_cmd_def)
  have 2: "discoveredSuites run_cmd_suites world_suites = [suite_shop]"
    by (simp add: discoveredSuites_def run_cmd_suites_def run_cmd_def world_suites_def
        world_ABC_def suite_shop_def)
  have 3: "suite_tests suite_shop =
     Some [\<lparr>test_config = Some [''headers'' \<mapsto> JObj [(''b'', JNum 2)]],
               test_id = ''aaa-aaa-aaa''\<rparr>]"
    by (simp add: suite_shop_def)
  have 4: "config_global run_cmd_suites = global_headers"
    by (simp add: run_cmd_suites_def)
  show ?thesis
    using suite_test_config_override [where cmd = run_cmd_suites and world = world_suites
        and suite = suite_shop and global = global_headers]
      suite_test_config_override [where cmd = run_cmd_suites and world = world_suites
        and suite = suite_shop
        and global = "global_headers(''startUrl'' \<mapsto> JStr ''https://example.org'')"]
      1 2 3 4
    by (simp add: global_headers_def)
qed


text \<open>
  The claim as stated fails on the example of the specification: with global
  headers a = 1 and headers b = 2 for the test, the effective headers are b = 2
  alone, not a = 1 and b = 2.
\<close>

theorem nested_headers_counterexample:
  "(case getTestsList run_cmd_suites world_suites of
      Returned tcs \<Rightarrow> map (\<lambda>tc. trigger_config tc ''headers'') tcs
    | Threw e \<Rightarrow> [])
   = [Some (JObj [(''b'', JNum 2)])]
   \<and> (case getTestsList run_cmd_suites world_suites of
        Returned tcs \<Rightarrow> map (\<lambda>tc. trigger_config tc ''headers'') tcs
      | Threw e \<Rightarrow> [])
     \<noteq> [Some (JObj [(''a'', JNum 1), (''b'', JNum 2)])]"
  by (simp add: getTestsList_def suiteTests_def spread_def falsy_def run_cmd_suites_def
      run_cmd_def world_suites_def world_ABC_def suite_shop_def global_headers_def)



section \<open>Properties of the helpers modelled from the specification\<close>

subsection \<open>Success of a test\<close>

text \<open>
  Claim C6. \<open>hasTestSucceeded\<close> is true exactly for a list of results that is not
  empty and in which every result passed: one result that did not pass makes it
  false, and the empty list is not a success.
\<close>

theorem hasTestSucceeded_all_passed:
  "(hasTestSucceeded rs \<longleftrightarrow> rs \<noteq> [] \<and> (\<forall>r \<in> set rs. passed (result r)))
   \<and> ((\<exists>r \<in> set rs. \<not> passed (result r)) \<longrightarrow> \<not> hasTestSucceeded rs)
   \<and> \<not> hasTestSucceeded []"
  by (auto simp: hasTestSucceeded_def list_all_iff)


theorem hasTestSucceeded_all_passed_witness:
  "hasTestSucceeded [passedResult ''1'', passedResult ''2'']
   \<and> \<not> hasTestSucceeded [passedResult ''1'', failedResult ''2'']
   \<and> \<not> hasTestSucceeded []"
  using hasTestSucceeded_all_passed [of "[passedResult ''1'', passedResult ''2'']"]
    hasTestSucceeded_all_passed [of "[passedResult ''1'', failedResult ''2'']"]
  by (simp add: passedResult_def failedResult_def)


subsection \<open>The poll loop\<close>

lemma find_result_id:
  "distinct (map result_id trs) \<Longrightarrow> tr \<in> set trs \<Longrightarrow>
   find (\<lambda>x. result_id x = result_id tr) trs = Some tr"
  by (induction trs) (auto simp: image_iff)

lemma owner_of:
  "distinct (map result_id trs) \<Longrightarrow> tr \<in> set trs \<Longrightarrow>
   owner trs (result_id tr) = Some (triggered_public_id tr)"
  by (simp add: owner_def find_result_id)

lemma owner_in:
  "owner trs rid = Some pid \<Longrightarrow> pid \<in> triggered_public_id ` set trs"
  by (auto simp: owner_def find_Some_iff)

lemma dom_appendResult: "dom (appendResult res pid r) = insert pid (dom res)"
  by (simp add: appendResult_def)

lemma resolveOne_inv:
  assumes "distinct (map result_id trs)" "poller_inv trs outstanding res"
    "resolveOne trs r (outstanding, res) = (outstanding', res')"
  shows "poller_inv trs outstanding' res'"
proof (cases "finished r \<and> resultID r \<in> set outstanding")
  case False
  then show ?thesis using assms by (auto simp: resolveOne_def)
next
  case True
  show ?thesis
  proof (cases "owner trs (resultID r)")
    case None
    then show ?thesis using assms True by (auto simp: resolveOne_def)
  next
    case (Some pid)
    then have eq: "outstanding' = removeAll (resultID r) outstanding"
      "res' = appendResult res pid r"
      using assms(3) True by (auto simp: resolveOne_def)
    have "pid \<in> triggered_public_id ` set trs" using Some by (rule owner_in)
    moreover have "result_id tr \<in> set outstanding' \<or> triggered_public_id tr \<in> dom res'"
      if "tr \<in> set trs" for tr
    proof (cases "result_id tr = resultID r")
      case True
      then have "owner trs (resultID r) = Some (triggered_public_id tr)"
        using owner_of [OF assms(1) that] by simp
      then show ?thesis using Some by (simp add: eq dom_appendResult)
    next
      case False
      then show ?thesis using assms(2) that
        by (auto simp: eq poller_inv_def dom_appendResult)
    qed
    ultimately show ?thesis using assms(2)
      by (auto simp: poller_inv_def eq dom_appendResult)
  qed
qed

lemma fold_resolveOne_inv:
  assumes "distinct (map result_id trs)"
  shows "poller_inv trs outstanding res \<Longrightarrow>
         fold (resolveOne trs) rs (outstanding, res) = (outstanding', res') \<Longrightarrow>
         poller_inv trs outstanding' res'"
proof (induction rs arbitrary: outstanding res)
  case Nil
  then show ?case by simp
next
  case (Cons r rs)
  obtain o1 r1 where step: "resolveOne trs r (outstanding, res) = (o1, r1)"
    by (cases "resolveOne trs r (outstanding, res)")
  have "poller_inv trs o1 r1" using resolveOne_inv [OF assms Cons.prems(1) step] .
  then show ?case using Cons.IH [of o1 r1] Cons.prems(2) step by simp
qed

lemma pollLoop_inv:
  "distinct (map result_id trs) \<Longrightarrow> poller_inv trs outstanding res \<Longrightarrow>
         (case pollLoop poll trs timeoutMs tick elapsed outstanding res of
            COMPLETE r \<Rightarrow> poller_inv trs [] r
          | TIMEOUT r out \<Rightarrow> poller_inv trs out r)"
proof (induction poll trs timeoutMs tick elapsed outstanding res rule: pollLoop.induct)
  case (1 poll trs timeoutMs tick elapsed outstanding res)
  note d = "1.prems"(1) and inv = "1.prems"(2)
  show ?case
  proof (cases "outstanding = [] \<or> timeoutMs \<le> elapsed")
    case True
    then show ?thesis using inv by (subst pollLoop.simps) auto
  next
    case False
    obtain o1 r1 where step:
      "(case poll tick of None \<Rightarrow> (outstanding, res)
        | Some rs \<Rightarrow> fold (resolveOne trs) rs (outstanding, res)) = (o1, r1)"
      by (cases "(case poll tick of None \<Rightarrow> (outstanding, res)
        | Some rs \<Rightarrow> fold (resolveOne trs) rs (outstanding, res))")
    have inv1: "poller_inv trs o1 r1"
      using step inv fold_resolveOne_inv [OF d inv]
      by (cases "poll tick") auto
    have "case pollLoop poll trs timeoutMs (Suc tick) (elapsed + POLLING_INTERVAL) o1 r1 of
            COMPLETE r \<Rightarrow> poller_inv trs [] r
          | TIMEOUT r out \<Rightarrow> poller_inv trs out r"
    proof (rule "1.IH" [OF _ _ step [symmetric] d inv1])
      show "outstanding \<noteq> []" using False by simp
      show "\<not> timeoutMs \<le> elapsed" using False by simp
    qed
    moreover have "pollLoop poll trs timeoutMs tick elapsed outstanding res
      = pollLoop poll trs timeoutMs (Suc tick) (elapsed + POLLING_INTERVAL) o1 r1"
      using False step by (subst pollLoop.simps) simp
    ultimately show ?thesis by simp
  qed
qed

lemma poller_inv_init: "poller_inv trs (remdups (map result_id trs)) Map.empty"
  by (simp add: poller_inv_def)

lemma has_result_appendResult:
  "has_result res pid r \<Longrightarrow> has_result (appendResult res pid' r') pid r"
  by (auto simp: has_result_def appendResult_def split: option.splits)

lemma has_result_appended: "has_result (appendResult res pid r) pid r"
  by (auto simp: has_result_def appendResult_def split: option.splits)

lemma has_result_reportTimedOut:
  "has_result res pid r \<Longrightarrow> has_result (reportTimedOut trs rid res) pid r"
  by (auto simp: reportTimedOut_def has_result_appendResult split: option.splits)

lemma fold_reportTimedOut_keeps:
  "has_result res pid r \<Longrightarrow> has_result (fold (reportTimedOut trs) out res) pid r"
  by (induction out arbitrary: res) (simp_all add: has_result_reportTimedOut)

lemma fold_reportTimedOut_has:
  "rid \<in> set out \<Longrightarrow> owner trs rid = Some pid \<Longrightarrow>
   has_result (fold (reportTimedOut trs) out res) pid (timedOutResult rid)"
proof (induction out arbitrary: res)
  case Nil
  then show ?case by simp
next
  case (Cons x out)
  show ?case
  proof (cases "x = rid")
    case True
    have "has_result (reportTimedOut trs rid res) pid (timedOutResult rid)"
      using Cons.prems(2) by (simp add: reportTimedOut_def has_result_appended)
    then show ?thesis using True by (simp add: fold_reportTimedOut_keeps)
  next
    case False
    then show ?thesis using Cons by simp
  qed
qed

lemma dom_reportTimedOut:
  "dom (reportTimedOut trs rid res) = dom res \<union> {pid. owner trs rid = Some pid}"
  by (auto simp: reportTimedOut_def dom_appendResult split: option.splits)

lemma dom_fold_reportTimedOut:
  "dom (fold (reportTimedOut trs) out res)
   = dom res \<union> {pid. \<exists>rid \<in> set out. owner trs rid = Some pid}"
  by (induction out arbitrary: res) (auto simp: dom_reportTimedOut)

lemma waitForResults_dom:
  assumes "distinct (map result_id trs)"
  shows "dom (waitForResults poll trs timeoutMs) = triggered_public_id ` set trs"
proof (cases "pollUntilEnd poll trs timeoutMs")
  case (COMPLETE r)
  then have "poller_inv trs [] r"
    using pollLoop_inv [OF assms poller_inv_init, where poll = poll and timeoutMs = timeoutMs
        and tick = 0 and elapsed = 0]
    by (simp add: pollUntilEnd_def)
  then show ?thesis using COMPLETE
    by (auto simp: waitForResults_def poller_inv_def)
next
  case (TIMEOUT r out)
  then have inv: "poller_inv trs out r"
    using pollLoop_inv [OF assms poller_inv_init, where poll = poll and timeoutMs = timeoutMs
        and tick = 0 and elapsed = 0]
    by (simp add: pollUntilEnd_def)
  have "triggered_public_id tr \<in> dom (fold (reportTimedOut trs) out r)" if "tr \<in> set trs" for tr
  proof (cases "result_id tr \<in> set out")
    case True
    then show ?thesis using owner_of [OF assms that]
      by (auto simp: dom_fold_reportTimedOut)
  next
    case False
    then show ?thesis using inv that by (auto simp: poller_inv_def dom_fold_reportTimedOut)
  qed
  moreover have "dom (fold (reportTimedOut trs) out r) \<subseteq> triggered_public_id ` set trs"
    using inv owner_in by (auto simp: poller_inv_def dom_fold_reportTimedOut)
  ultimately show ?thesis using TIMEOUT by (auto simp: waitForResults_def)
qed

lemma waitForResults_timed_out:
  assumes "distinct (map result_id trs)" "tr \<in> set trs"
    "result_id tr \<in> set (outstandingAtEnd (pollUntilEnd poll trs timeoutMs))"
  shows "has_result (waitForResults poll trs timeoutMs) (triggered_public_id tr)
           (timedOutResult (result_id tr))"
proof (cases "pollUntilEnd poll trs timeoutMs")
  case (COMPLETE r)
  then show ?thesis using assms(3) by simp
next
  case (TIMEOUT r out)
  then have "result_id tr \<in> set out" using assms(3) by simp
  then show ?thesis using TIMEOUT owner_of [OF assms(1,2)]
    by (simp add: waitForResults_def fold_reportTimedOut_has)
qed


text \<open>
  Claim C9. When the result ids of the triggered instances are distinct, the keys
  of the map \<open>waitForResults\<close> returns are exactly the public ids of the triggered
  tests, whether the loop ends complete or by the timeout; and a test with an
  instance still outstanding when the loop ends has the made-up result of that
  instance among its results, which did not pass, so that the test counts as
  failed.
\<close>

theorem waitForResults_keys:
  assumes "distinct (map result_id trs)"
  shows "dom (waitForResults poll trs timeoutMs) = triggered_public_id ` set trs
    \<and> (\<forall>tr \<in> set trs.
          result_id tr \<in> set (outstandingAtEnd (pollUntilEnd poll trs timeoutMs)) \<longrightarrow>
          (\<exists>rs. waitForResults poll trs timeoutMs (triggered_public_id tr) = Some rs
                \<and> timedOutResult (result_id tr) \<in> set rs
                \<and> \<not> passed (result (timedOutResult (result_id tr)))
                \<and> \<not> hasTestSucceeded rs))"
proof (intro conjI ballI impI)
  show "dom (waitForResults poll trs timeoutMs) = triggered_public_id ` set trs"
    using assms by (rule waitForResults_dom)
next
  fix tr
  assume t: "tr \<in> set trs"
    and o: "result_id tr \<in> set (outstandingAtEnd (pollUntilEnd poll trs timeoutMs))"
  obtain rs where rs: "waitForResults poll trs timeoutMs (triggered_public_id tr) = Some rs"
    "timedOutResult (result_id tr) \<in> set rs"
    using waitForResults_timed_out [OF assms t o] unfolding has_result_def by blast
  have f: "\<not> passed (result (timedOutResult (result_id tr)))"
    by (simp add: timedOutResult_def)
  then have "\<not> hasTestSucceeded rs" using rs(2)
    by (auto simp: hasTestSucceeded_def list_all_iff)
  then show "\<exists>rs. waitForResults poll trs timeoutMs (triggered_public_id tr) = Some rs
                \<and> timedOutResult (result_id tr) \<in> set rs
                \<and> \<not> passed (result (timedOutResult (result_id tr)))
                \<and> \<not> hasTestSucceeded rs"
    using rs f by blast
qed


text \<open>
  Two instances, a timeout of 10 seconds, and only the first instance ever answered:
  the second is outstanding at the end, both tests are keys of the result, and the
  second test has the made-up result.
\<close>

lemma pollUntilEnd_example:
  "outstandingAtEnd (pollUntilEnd poll_once triggers_AB 10000) = [''2'']"
  by code_simp

theorem waitForResults_keys_witness:
  "distinct (map result_id triggers_AB)
   \<and> dom (waitForResults poll_once triggers_AB 10000) = {''aaa-aaa-aaa'', ''bbb-bbb-bbb''}
   \<and> (\<exists>rs. waitForResults poll_once triggers_AB 10000 ''bbb-bbb-bbb'' = Some rs
         \<and> timedOutResult ''2'' \<in> set rs \<and> \<not> hasTestSucceeded rs)"
proof -
  have d: "distinct (map result_id triggers_AB)"
    by (simp add: triggers_AB_def triggered_def)
  have m: "triggered ''bbb-bbb-bbb'' ''2'' \<in> set triggers_AB" by (simp add: triggers_AB_def)
  have o: "result_id (triggered ''bbb-bbb-bbb'' ''2'')
      \<in> set (outstandingAtEnd (pollUntilEnd poll_once triggers_AB 10000))"
    by (simp add: pollUntilEnd_example triggered_def)
  note w = waitForResults_keys [OF d, of poll_once 10000]
  from w have 1: "dom (waitForResults poll_once triggers_AB 10000)
      = {''aaa-aaa-aaa'', ''bbb-bbb-bbb''}"
    by (simp add: triggers_AB_def triggered_def)
  from w m o have "\<exists>rs. waitForResults poll_once triggers_AB 10000
          (triggered_public_id (triggered ''bbb-bbb-bbb'' ''2'')) = Some rs
        \<and> timedOutResult (result_id (triggered ''bbb-bbb-bbb'' ''2'')) \<in> set rs
        \<and> \<not> passed (result (timedOutResult (result_id (triggered ''bbb-bbb-bbb'' ''2''))))
        \<and> \<not> hasTestSucceeded rs"
    by blast
  then have 2: "\<exists>rs. waitForResults poll_once triggers_AB 10000 ''bbb-bbb-bbb'' = Some rs
         \<and> timedOutResult ''2'' \<in> set rs \<and> \<not> hasTestSucceeded rs"
    by (auto simp: triggered_def)
  show ?thesis using d 1 2 by simp
qed


end
